theory Spec2Isabelle
  imports Complex_Main
begin

section \<open>Voice Vault: speaker verification core\<close>

text \<open>
  A shallow embedding of \<^verbatim>\<open>voice_vault_server/ml_utils.py\<close> and of the voiceprint
  part of \<^verbatim>\<open>voice_vault_server/storage.py\<close>.

  Conventions of the model:
  \<^item> a Python exception is a value \<open>Inl e\<close> of the sum type \<open>error + 'a\<close>;
  \<^item> the functions of librosa (\<^verbatim>\<open>load\<close>, \<^verbatim>\<open>effects.trim\<close>, \<^verbatim>\<open>effects.split\<close>,
    \<^verbatim>\<open>feature.mfcc\<close>) and \<^verbatim>\<open>os.path.exists\<close> are parameters of the functions that
    call them;
  \<^item> in the feature extractor, whose properties are stated up to a tolerance, an array is a
    \<open>real list\<close> and the statistics are computed in exact arithmetic;
  \<^item> in the matcher and in the storage module an array is a list of values of the type
    \<open>double\<close> (finite values, the two infinities and NaN), comparisons are those of
    IEEE 754, and the floating-point operations (which round) and the reductions of NumPy
    (whose order of evaluation is NumPy's own) are parameters, collected in a record
    \<open>arith\<close>: what is proved for every such arithmetic holds for the one of the machine.
    Two instances are defined: IEEE 754 binary64 with rounding to nearest, for the examples,
    and the exact arithmetic of the reals;
  \<^item> a dictionary whose iteration order matters (the argument of \<^verbatim>\<open>predict_speaker\<close>) is an
    association list in iteration order; the JSON files of the storage module are maps.
\<close>

subsection \<open>Exceptions\<close>

datatype error =
    FileNotFoundError string
  | ValueError string
  | OverflowError string
  | LoadError string  \<comment> \<open>whatever \<^verbatim>\<open>librosa.load\<close> raises on a file it cannot decode\<close>

subsection \<open>Configuration (\<^verbatim>\<open>config.py\<close>)\<close>

definition SAMPLE_RATE :: nat where "SAMPLE_RATE = 16000"
definition N_MFCC :: nat where "N_MFCC = 13"
definition N_FFT :: nat where "N_FFT = 512"
definition HOP_LENGTH :: nat where "HOP_LENGTH = 160"
definition N_MELS :: nat where "N_MELS = 40"

subsection \<open>NumPy operations of the feature extractor\<close>

type_synonym ndarray = "real list"

definition np_linalg_norm :: "ndarray \<Rightarrow> real" where
  "np_linalg_norm v = sqrt (\<Sum>x\<leftarrow>v. x * x)"

text \<open>
  \<^verbatim>\<open>np.mean\<close> and \<^verbatim>\<open>np.std\<close> of one row. On an empty row NumPy gives NaN (with a
  warning); the model gives 0 there.
\<close>

definition np_mean :: "ndarray \<Rightarrow> real" where
  "np_mean xs = sum_list xs / real (length xs)"

definition np_std :: "ndarray \<Rightarrow> real" where
  "np_std xs = sqrt (np_mean (map (\<lambda>x. (x - np_mean xs) * (x - np_mean xs)) xs))"

text \<open>
  A Python slice \<^verbatim>\<open>xs[start:stop]\<close>: a negative bound counts from the end, and every
  bound is clamped to the range of the list.
\<close>

definition slice_bound :: "int \<Rightarrow> nat \<Rightarrow> nat" where
  "slice_bound i n = (if i < 0 then nat (max 0 (i + int n)) else min (nat i) n)"

definition py_slice :: "'a list \<Rightarrow> int \<Rightarrow> int \<Rightarrow> 'a list" where
  "py_slice xs start stop =
     drop (slice_bound start (length xs)) (take (slice_bound stop (length xs)) xs)"

subsection \<open>The external functions\<close>

text \<open>
  What \<^verbatim>\<open>ml_utils.py\<close> calls outside the repository: \<^verbatim>\<open>os.path.exists\<close>,
  \<^verbatim>\<open>librosa.load(filepath, sr, mono=True)\<close> (the waveform and its sample rate, or an
  exception), \<^verbatim>\<open>librosa.effects.trim(y, top_db)\<close> (its first component, the trimmed
  signal), \<^verbatim>\<open>librosa.effects.split(y, top_db)\<close> (the intervals) and
  \<^verbatim>\<open>librosa.feature.mfcc(y, sr, n_mfcc, n_fft, hop_length, n_mels)\<close> (a matrix, one row
  per coefficient, one column per frame).
\<close>

record externals =
  path_exists :: "string \<Rightarrow> bool"
  librosa_load :: "string \<Rightarrow> nat \<Rightarrow> error + (ndarray \<times> nat)"
  effects_trim :: "ndarray \<Rightarrow> real \<Rightarrow> ndarray"
  effects_split :: "ndarray \<Rightarrow> real \<Rightarrow> (int \<times> int) list"
  feature_mfcc :: "ndarray \<Rightarrow> nat \<Rightarrow> nat \<Rightarrow> nat \<Rightarrow> nat \<Rightarrow> nat \<Rightarrow> ndarray list"

subsection \<open>Feature extraction (\<^verbatim>\<open>ml_utils.py\<close>)\<close>

text \<open>\<^verbatim>\<open>np.concatenate\<close> raises \<^verbatim>\<open>ValueError\<close> on an empty list of arrays.\<close>

definition np_concatenate :: "ndarray list \<Rightarrow> error + ndarray" where
  "np_concatenate arrays =
     (if arrays = [] then Inl (ValueError ''need at least one array to concatenate'')
      else Inr (concat arrays))"

definition apply_vad :: "externals \<Rightarrow> ndarray \<Rightarrow> real \<Rightarrow> real \<Rightarrow> error + ndarray" where
  "apply_vad ext y top_db_trim top_db_split =
     (let y_trimmed = effects_trim ext y top_db_trim;
          y_trimmed = (if length y_trimmed = 0 then y else y_trimmed);
          intervals = effects_split ext y_trimmed top_db_split
      in if length intervals = 0 then Inr y_trimmed
         else
           let voiced = map (\<lambda>(start, stop). py_slice y_trimmed start stop) intervals
           in case np_concatenate voiced of
                Inl e \<Rightarrow> Inl e
              | Inr y_voiced \<Rightarrow>
                  if length y_voiced = 0 then Inr y_trimmed else Inr y_voiced)"

definition extract_features :: "externals \<Rightarrow> string \<Rightarrow> error + ndarray" where
  "extract_features ext filepath =
     (if \<not> path_exists ext filepath
      then Inl (FileNotFoundError (''Audio file not found: '' @ filepath))
      else
        case librosa_load ext filepath SAMPLE_RATE of
          Inl e \<Rightarrow> Inl e
        | Inr (y, sr) \<Rightarrow>
            if length y = 0 then Inl (ValueError ''Empty audio signal.'')
            else
              case apply_vad ext y 25 30 of
                Inl e \<Rightarrow> Inl e
              | Inr y_voiced \<Rightarrow>
                  if real (length y_voiced) < 0.5 * real SAMPLE_RATE
                  then Inl (ValueError ''Less than 0.5s of voiced speech.'')
                  else
                    let mfcc = feature_mfcc ext y_voiced sr N_MFCC N_FFT HOP_LENGTH N_MELS
                    in if length mfcc < 2
                       then Inl (ValueError ''Not enough MFCC coefficients computed.'')
                       else
                         let mfcc_no_c0 = drop 1 mfcc;
                             mfcc_mean = map np_mean mfcc_no_c0;
                             mfcc_std = map np_std mfcc_no_c0;
                             feature_vector = mfcc_mean @ mfcc_std;
                             norm_v = np_linalg_norm feature_vector
                         in Inr (if norm_v > 1 / 10 ^ 10
                                 then map (\<lambda>x. x / norm_v) feature_vector
                                 else feature_vector))"

subsection \<open>Floating-point values\<close>

text \<open>
  A value of a NumPy \<^verbatim>\<open>float64\<close> or of a Python \<^verbatim>\<open>float\<close>: \<open>Fin x\<close> is the finite
  double of value \<open>x\<close> (the two signed zeros are both \<open>Fin 0\<close>), \<open>PInf\<close> and \<open>NInf\<close> are the
  infinities.
\<close>

datatype double = Fin real | PInf | NInf | NaN

type_synonym float_array = "double list"

text \<open>
  The comparisons \<^verbatim>\<open><\<close>, \<^verbatim>\<open>==\<close>, \<^verbatim>\<open>>\<close> and \<^verbatim>\<open><=\<close> of IEEE 754: every
  comparison with NaN is false.
\<close>

fun dless :: "double \<Rightarrow> double \<Rightarrow> bool" where
  "dless NaN b = False"
| "dless a NaN = False"
| "dless (Fin x) (Fin y) = (x < y)"
| "dless (Fin x) PInf = True"
| "dless (Fin x) NInf = False"
| "dless PInf b = False"
| "dless NInf NInf = False"
| "dless NInf b = True"

definition deq :: "double \<Rightarrow> double \<Rightarrow> bool" where
  "deq a b = (a \<noteq> NaN \<and> b \<noteq> NaN \<and> a = b)"

definition dgt :: "double \<Rightarrow> double \<Rightarrow> bool" where
  "dgt a b = dless b a"

definition dle :: "double \<Rightarrow> double \<Rightarrow> bool" where
  "dle a b = (dless a b \<or> deq a b)"

text \<open>The literal \<^verbatim>\<open>1e-10\<close>: the double nearest to it, \<open>0x1.b7cdfd9d7bdbbp-34\<close>.\<close>

definition literal_1e_10 :: double where
  "literal_1e_10 = Fin (7737125245533627 / 2 ^ 86)"

text \<open>
  The arithmetic: the four operations on doubles, \<^verbatim>\<open>np.dot\<close> and \<^verbatim>\<open>np.linalg.norm\<close>
  on vectors of equal length, the sum of a contiguous one-dimensional array (NumPy sums it
  pairwise), and the conversion of a Python integer to a double, which is \<open>None\<close> when
  Python raises \<^verbatim>\<open>OverflowError\<close>.
\<close>

record arith =
  fl_add :: "double \<Rightarrow> double \<Rightarrow> double"
  fl_sub :: "double \<Rightarrow> double \<Rightarrow> double"
  fl_mul :: "double \<Rightarrow> double \<Rightarrow> double"
  fl_div :: "double \<Rightarrow> double \<Rightarrow> double"
  vec_dot :: "float_array \<Rightarrow> float_array \<Rightarrow> double"
  vec_norm :: "float_array \<Rightarrow> double"
  vec_sum :: "float_array \<Rightarrow> double"
  int_to_float :: "int \<Rightarrow> double option"

subsection \<open>Distance and prediction (\<^verbatim>\<open>ml_utils.py\<close>)\<close>

text \<open>\<^verbatim>\<open>np.dot\<close> of two vectors raises \<^verbatim>\<open>ValueError\<close> when their lengths differ.\<close>

definition np_dot :: "arith \<Rightarrow> float_array \<Rightarrow> float_array \<Rightarrow> error + double" where
  "np_dot np a b =
     (if length a \<noteq> length b then Inl (ValueError ''shapes not aligned'')
      else Inr (vec_dot np a b))"

definition cosine_distance :: "arith \<Rightarrow> float_array \<Rightarrow> float_array \<Rightarrow> error + double" where
  "cosine_distance np a b =
     (case np_dot np a b of
        Inl e \<Rightarrow> Inl e
      | Inr dot_ab \<Rightarrow>
          let norm_a = vec_norm np a;
              norm_b = vec_norm np b
          in if deq norm_a (Fin 0) \<or> deq norm_b (Fin 0) then Inr (Fin 2)
             else let cosine_sim = fl_div np dot_ab (fl_mul np norm_a norm_b)
                  in Inr (fl_sub np (Fin 1) cosine_sim))"

text \<open>
  The \<^verbatim>\<open>for username, vp in voiceprints.items()\<close> loop of \<^verbatim>\<open>predict_speaker\<close>, with the
  loop state \<open>(best_user, best_distance)\<close> as the last argument.
\<close>

fun predict_loop ::
  "arith \<Rightarrow> float_array \<Rightarrow> (string \<times> float_array) list \<Rightarrow> string option \<times> double option
     \<Rightarrow> error + (string option \<times> double option)" where
  "predict_loop np sample_feature [] best = Inr best"
| "predict_loop np sample_feature ((username, vp) # rest) (best_user, best_distance) =
     (if length vp \<noteq> length sample_feature
      then predict_loop np sample_feature rest (best_user, best_distance)
      else
        let vp_norm = vec_norm np vp;
            vp_normed =
              (if dgt vp_norm literal_1e_10 then map (\<lambda>x. fl_div np x vp_norm) vp else vp)
        in case cosine_distance np sample_feature vp_normed of
             Inl e \<Rightarrow> Inl e
           | Inr dist_v \<Rightarrow>
               if (case best_distance of None \<Rightarrow> True | Some b \<Rightarrow> dless dist_v b)
               then predict_loop np sample_feature rest (Some username, Some dist_v)
               else predict_loop np sample_feature rest (best_user, best_distance))"

definition predict_speaker ::
  "arith \<Rightarrow> (string \<times> float_array) list \<Rightarrow> float_array
     \<Rightarrow> error + (string option \<times> double option)" where
  "predict_speaker np voiceprints sample_feature =
     (if voiceprints = [] then Inr (None, None)
      else
        let sample_norm = vec_norm np sample_feature;
            sample_feature =
              (if dgt sample_norm literal_1e_10
               then map (\<lambda>x. fl_div np x sample_norm) sample_feature
               else sample_feature)
        in case predict_loop np sample_feature voiceprints (None, None) of
             Inl e \<Rightarrow> Inl e
           | Inr (best_user, best_distance) \<Rightarrow>
               if best_user = None then Inr (None, None)
               else Inr (best_user, best_distance))"

subsection \<open>Stored users and voiceprints (\<^verbatim>\<open>storage.py\<close>)\<close>

text \<open>
  A JSON number as \<^verbatim>\<open>json.load\<close> reads it: an integer literal is a Python integer, of any
  size; a literal with a fraction or an exponent, and \<^verbatim>\<open>NaN\<close> and \<^verbatim>\<open>Infinity\<close>, are
  floats. The JSON value stored for a vector is either a flat list of numbers, which
  \<^verbatim>\<open>np.array(..., dtype=float)\<close> turns into a one-dimensional array unless an integer is
  too large for a double, or some other JSON value (kept as its text) on which that
  conversion raises, such as a string that is not a number. JSON values that NumPy converts
  to something else than the one-dimensional array of the same numbers (nested lists,
  booleans, \<^verbatim>\<open>null\<close>, strings that spell a number) are outside the model.
\<close>

datatype json_num = JInt int | JFloat double

datatype json_vec = JList "json_num list" | JOther string

fun to_floats :: "arith \<Rightarrow> json_num list \<Rightarrow> error + float_array" where
  "to_floats np [] = Inr []"
| "to_floats np (JFloat d # rest) =
     (case to_floats np rest of Inl e \<Rightarrow> Inl e | Inr ds \<Rightarrow> Inr (d # ds))"
| "to_floats np (JInt n # rest) =
     (case int_to_float np n of
        None \<Rightarrow> Inl (OverflowError ''int too large to convert to float'')
      | Some d \<Rightarrow> (case to_floats np rest of Inl e \<Rightarrow> Inl e | Inr ds \<Rightarrow> Inr (d # ds)))"

definition np_array :: "arith \<Rightarrow> json_vec \<Rightarrow> error + float_array" where
  "np_array np j =
     (case j of
        JList ns \<Rightarrow> to_floats np ns
      | JOther s \<Rightarrow> Inl (ValueError ''could not convert to float''))"

definition tolist :: "float_array \<Rightarrow> json_vec" where
  "tolist v = JList (map JFloat v)"

text \<open>
  One entry of \<^verbatim>\<open>audio_samples\<close>; \<open>features = None\<close> is a missing or null
  \<^verbatim>\<open>"features"\<close> key. One user entry; \<open>audio_samples = None\<close> is a missing key.
\<close>

record sample =
  path :: string
  features :: "json_vec option"

record user_entry =
  audio_samples :: "sample list option"

text \<open>
  The two JSON files, each as the dictionary \<^verbatim>\<open>_read_json\<close> returns for it (a missing
  or undecodable file reads as the empty dictionary).
\<close>

record files =
  users_json :: "string \<rightharpoonup> user_entry"
  voiceprints_json :: "string \<rightharpoonup> json_vec"

definition load_users :: "files \<Rightarrow> (string \<rightharpoonup> user_entry)" where
  "load_users st = users_json st"

definition load_voiceprints :: "arith \<Rightarrow> files \<Rightarrow> (string \<rightharpoonup> float_array)" where
  "load_voiceprints np st =
     (\<lambda>username.
        case voiceprints_json st username of
          None \<Rightarrow> None
        | Some vec \<Rightarrow> (case np_array np vec of Inl e \<Rightarrow> None | Inr a \<Rightarrow> Some a))"

definition save_voiceprints :: "(string \<rightharpoonup> float_array) \<Rightarrow> files \<Rightarrow> files" where
  "save_voiceprints voiceprints st =
     st\<lparr>voiceprints_json := (\<lambda>u. map_option tolist (voiceprints u))\<rparr>"

text \<open>The loop of \<^verbatim>\<open>recompute_voiceprint\<close> that collects the feature arrays.\<close>

fun feature_loop :: "arith \<Rightarrow> sample list \<Rightarrow> float_array list" where
  "feature_loop np [] = []"
| "feature_loop np (s # rest) =
     (case features s of
        None \<Rightarrow> feature_loop np rest
      | Some feats \<Rightarrow>
          (case np_array np feats of
             Inl e \<Rightarrow> feature_loop np rest
           | Inr a \<Rightarrow> a # feature_loop np rest))"

text \<open>
  \<^verbatim>\<open>np.stack(arrays, axis=0)\<close> raises \<^verbatim>\<open>ValueError\<close> on an empty list and when the
  arrays differ in shape.
\<close>

definition np_stack :: "float_array list \<Rightarrow> error + float_array list" where
  "np_stack arrays =
     (case arrays of
        [] \<Rightarrow> Inl (ValueError ''need at least one array to stack'')
      | a # rest \<Rightarrow>
          if list_all (\<lambda>b. length b = length a) rest then Inr arrays
          else Inl (ValueError ''all input arrays must have the same shape''))"

text \<open>
  \<^verbatim>\<open>np.mean(stacked, axis=0)\<close>: the sum of the rows divided by their number. With two or
  more columns NumPy adds the rows to the first one, one after the other; a single column is
  a contiguous one-dimensional array, summed by NumPy's own routine. The number of rows is
  converted to a double without rounding.
\<close>

definition np_mean_axis0 :: "arith \<Rightarrow> float_array list \<Rightarrow> float_array" where
  "np_mean_axis0 np stacked =
     (case stacked of
        [] \<Rightarrow> []
      | a # rest \<Rightarrow>
          map (\<lambda>j. fl_div np
                     (if length a = 1 then vec_sum np (map (\<lambda>row. row ! j) stacked)
                      else foldl (fl_add np) (a ! j) (map (\<lambda>row. row ! j) rest))
                     (Fin (real (length stacked))))
              [0..<length a])"

definition recompute_voiceprint :: "arith \<Rightarrow> string \<Rightarrow> files \<Rightarrow> error + files" where
  "recompute_voiceprint np username st =
     (let users = load_users st
      in case users username of
           None \<Rightarrow> Inr st
         | Some entry \<Rightarrow>
             let samples = (case audio_samples entry of None \<Rightarrow> [] | Some ss \<Rightarrow> ss)
             in if samples = [] then Inr st
                else
                  let feature_list = feature_loop np samples
                  in if feature_list = [] then Inr st
                     else
                       case np_stack feature_list of
                         Inl e \<Rightarrow> Inl e
                       | Inr stacked \<Rightarrow>
                           let centroid = np_mean_axis0 np stacked;
                               voiceprints = load_voiceprints np st;
                               voiceprints = voiceprints(username \<mapsto> centroid)
                           in Inr (save_voiceprints voiceprints st))"

subsection \<open>Notions of the specification\<close>

text \<open>
  The specification's "re-normalized" vector: divided by its norm if the norm exceeds
  \<open>1e-10\<close>, unchanged otherwise; in the exact arithmetic of the extractor, and in the
  floating-point arithmetic of the matcher.
\<close>

definition renormalized :: "ndarray \<Rightarrow> ndarray" where
  "renormalized v =
     (if np_linalg_norm v > 1 / 10 ^ 10 then map (\<lambda>x. x / np_linalg_norm v) v else v)"

definition renormalized_float :: "arith \<Rightarrow> float_array \<Rightarrow> float_array" where
  "renormalized_float np v =
     (if dgt (vec_norm np v) literal_1e_10 then map (\<lambda>x. fl_div np x (vec_norm np v)) v
      else v)"

text \<open>
  The cosine distance of two vectors of equal length, \<open>1 - (a . b) / (|a| * |b|)\<close>, evaluated
  in floating point, and 2 when a norm is zero.
\<close>

definition cosine_formula :: "arith \<Rightarrow> float_array \<Rightarrow> float_array \<Rightarrow> double" where
  "cosine_formula np a b =
     (if deq (vec_norm np a) (Fin 0) \<or> deq (vec_norm np b) (Fin 0) then Fin 2
      else fl_sub np (Fin 1)
             (fl_div np (vec_dot np a b) (fl_mul np (vec_norm np a) (vec_norm np b))))"

text \<open>
  The distance the specification assigns to a stored vector: the cosine distance between the
  re-normalized query and the re-normalized stored vector.
\<close>

definition entry_distance :: "arith \<Rightarrow> float_array \<Rightarrow> float_array \<Rightarrow> double" where
  "entry_distance np q v = cosine_formula np (renormalized_float np q) (renormalized_float np v)"

text \<open>The entries of a voiceprint mapping whose shape equals the query's, in iteration order.\<close>

definition shape_matching ::
  "(string \<times> float_array) list \<Rightarrow> float_array \<Rightarrow> (string \<times> float_array) list" where
  "shape_matching voiceprints q = filter (\<lambda>(u, v). length v = length q) voiceprints"

text \<open>
  Component \<open>j\<close> of the mean of the vectors \<open>vs\<close> in floating point: the components are
  added in the order of the vectors, and the sum is divided by the number of vectors.
\<close>

definition sequential_mean :: "arith \<Rightarrow> float_array list \<Rightarrow> nat \<Rightarrow> double" where
  "sequential_mean np vs j =
     fl_div np (foldl (fl_add np) (hd vs ! j) (map (\<lambda>v. v ! j) (tl vs)))
       (Fin (real (length vs)))"

text \<open>
  The feature vector before normalization: the means of the rows of the MFCC matrix without
  its first row, followed by their standard deviations.
\<close>

definition raw_statistics :: "ndarray list \<Rightarrow> ndarray" where
  "raw_statistics mfcc = map np_mean (drop 1 mfcc) @ map np_std (drop 1 mfcc)"

subsection \<open>An example environment\<close>

text \<open>
  External functions for the examples: every file exists and decodes to \<open>n\<close> samples of
  value 1, nothing is silent (trimming keeps the signal, splitting gives the one interval
  that covers it), and the MFCC matrix has \<open>n_mfcc\<close> rows of two frames each, all zero but
  the second row, whose frames both are \<open>c\<close>.
\<close>

definition example_ext :: "nat \<Rightarrow> real \<Rightarrow> externals" where
  "example_ext n c =
     \<lparr> path_exists = (\<lambda>filepath. True),
       librosa_load = (\<lambda>filepath sr. Inr (replicate n 1, sr)),
       effects_trim = (\<lambda>y top_db. y),
       effects_split = (\<lambda>y top_db. [(0, int (length y))]),
       feature_mfcc = (\<lambda>y sr n_mfcc n_fft hop_length n_mels.
                         [0, 0] # [c, c] # replicate (n_mfcc - 2) [0, 0]) \<rparr>"

subsection \<open>An example arithmetic: IEEE 754 binary64\<close>

text \<open>
  Rounding to the nearest double, ties to even: a real \<open>x\<close> with
  \<open>2 ^ e \<le> |x| < 2 ^ (e + 1)\<close> is rounded to a multiple of \<open>2 ^ (e - 52)\<close>, the exponent
  being at least \<open>-1022\<close> (below, doubles are subnormal); a result of magnitude
  \<open>2 ^ 1024\<close> or more overflows to an infinity.
\<close>

definition pow2 :: "int \<Rightarrow> real" where
  "pow2 e = (if 0 \<le> e then 2 ^ nat e else 1 / 2 ^ nat (- e))"

definition round_half_even :: "real \<Rightarrow> int" where
  "round_half_even y =
     (let f = \<lfloor>y\<rfloor>
      in if y - of_int f < 1 / 2 then f
         else if y - of_int f > 1 / 2 then f + 1
         else if even f then f else f + 1)"

definition round_double :: "real \<Rightarrow> double" where
  "round_double x =
     (if x = 0 then Fin 0
      else
        let e = max \<lfloor>log 2 \<bar>x\<bar>\<rfloor> (- 1022);
            q = pow2 (e - 52);
            r = of_int (round_half_even (x / q)) * q
        in if \<bar>r\<bar> \<ge> 2 ^ 1024 then (if 0 < x then PInf else NInf) else Fin r)"

text \<open>
  The operations on doubles: the exact result, rounded. The sign of an infinite result
  is the product of the signs of the operands. Division by zero, whose result in IEEE 754
  depends on the sign of the zero, is not modelled: it gives NaN here, and the examples do
  not divide by zero.
\<close>

definition sign_of :: "double \<Rightarrow> real" where
  "sign_of a = (case a of Fin x \<Rightarrow> sgn x | PInf \<Rightarrow> 1 | NInf \<Rightarrow> - 1 | NaN \<Rightarrow> 0)"

definition infinity_of :: "real \<Rightarrow> double" where
  "infinity_of s = (if s = 0 then NaN else if 0 < s then PInf else NInf)"

fun ieee_add :: "double \<Rightarrow> double \<Rightarrow> double" where
  "ieee_add NaN b = NaN"
| "ieee_add a NaN = NaN"
| "ieee_add (Fin x) (Fin y) = round_double (x + y)"
| "ieee_add PInf NInf = NaN"
| "ieee_add NInf PInf = NaN"
| "ieee_add PInf b = PInf"
| "ieee_add NInf b = NInf"
| "ieee_add (Fin x) b = b"

fun ieee_neg :: "double \<Rightarrow> double" where
  "ieee_neg (Fin x) = Fin (- x)"
| "ieee_neg PInf = NInf"
| "ieee_neg NInf = PInf"
| "ieee_neg NaN = NaN"

definition ieee_sub :: "double \<Rightarrow> double \<Rightarrow> double" where
  "ieee_sub a b = ieee_add a (ieee_neg b)"

fun ieee_mul :: "double \<Rightarrow> double \<Rightarrow> double" where
  "ieee_mul NaN b = NaN"
| "ieee_mul a NaN = NaN"
| "ieee_mul (Fin x) (Fin y) = round_double (x * y)"
| "ieee_mul a b = infinity_of (sign_of a * sign_of b)"

fun ieee_div :: "double \<Rightarrow> double \<Rightarrow> double" where
  "ieee_div NaN b = NaN"
| "ieee_div a NaN = NaN"
| "ieee_div (Fin x) (Fin y) = (if y = 0 then NaN else round_double (x / y))"
| "ieee_div (Fin x) b = Fin 0"
| "ieee_div a (Fin y) = (if y = 0 then NaN else infinity_of (sign_of a * sgn y))"
| "ieee_div a b = NaN"

fun ieee_sqrt :: "double \<Rightarrow> double" where
  "ieee_sqrt (Fin x) = (if x < 0 then NaN else round_double (sqrt x))"
| "ieee_sqrt PInf = PInf"
| "ieee_sqrt NInf = NaN"
| "ieee_sqrt NaN = NaN"

text \<open>
  The example arithmetic. Its dot product and its sum add from left to right, which is
  what NumPy computes whenever no product and no partial sum rounds, as in the examples; the
  norm is the square root of the dot product of the vector with itself, as in
  \<^verbatim>\<open>np.linalg.norm\<close>.
\<close>

definition ieee_dot :: "float_array \<Rightarrow> float_array \<Rightarrow> double" where
  "ieee_dot a b = foldl (\<lambda>acc (x, y). ieee_add acc (ieee_mul x y)) (Fin 0) (zip a b)"

definition ieee_arith :: arith where
  "ieee_arith =
     \<lparr> fl_add = ieee_add,
       fl_sub = ieee_sub,
       fl_mul = ieee_mul,
       fl_div = ieee_div,
       vec_dot = ieee_dot,
       vec_norm = (\<lambda>v. ieee_sqrt (ieee_dot v v)),
       vec_sum = foldl ieee_add (Fin 0),
       int_to_float =
         (\<lambda>n. case round_double (of_int n) of Fin x \<Rightarrow> Some (Fin x) | _ \<Rightarrow> None) \<rparr>"

text \<open>
  Stored files for the examples: one user, alice, with the given samples, and the given
  voiceprints file.
\<close>

definition example_sample :: "string \<Rightarrow> real list \<Rightarrow> sample" where
  "example_sample p v = \<lparr> path = p, features = Some (JList (map (\<lambda>x. JFloat (Fin x)) v)) \<rparr>"

definition example_files :: "sample list \<Rightarrow> (string \<rightharpoonup> json_vec) \<Rightarrow> files" where
  "example_files samples vps =
     \<lparr> users_json = [''alice'' \<mapsto> \<lparr> audio_samples = Some samples \<rparr>],
       voiceprints_json = vps \<rparr>"

subsection \<open>Exact arithmetic\<close>

text \<open>
  The arithmetic of the real numbers, as an instance of \<open>arith\<close>: on finite values the
  operations are exact, without rounding, overflow or underflow; an operand that is not
  finite, and a division by zero, give NaN. This is the arithmetic in which the formula
  \<open>1 - (a . b) / (|a| * |b|)\<close> is read mathematically; the program does not compute in it.
\<close>

definition is_finite :: "double \<Rightarrow> bool" where
  "is_finite a = (case a of Fin x \<Rightarrow> True | _ \<Rightarrow> False)"










subsection \<open>Auxiliary notions for the proofs\<close>

text \<open>One update of the loop state of \<open>predict_loop\<close> by a candidate and its distance.\<close>

definition keep_best ::
  "string option \<times> double option \<Rightarrow> string \<times> double \<Rightarrow> string option \<times> double option" where
  "keep_best best cand =
     (if (case snd best of None \<Rightarrow> True | Some b \<Rightarrow> dless (snd cand) b)
      then (Some (fst cand), Some (snd cand))
      else best)"

section \<open>Normalization in exact arithmetic\<close>





lemma length_renormalized: "length (renormalized v) = length v"
  by (simp add: renormalized_def)

section \<open>Voice activity trimming and feature extraction\<close>

lemma apply_vad_eq:
  "apply_vad ext y t1 t2 =
     (let y_trimmed = (if effects_trim ext y t1 = [] then y else effects_trim ext y t1);
          intervals = effects_split ext y_trimmed t2;
          y_voiced = concat (map (\<lambda>(start, stop). py_slice y_trimmed start stop) intervals)
      in if intervals = [] \<or> y_voiced = [] then Inr y_trimmed else Inr y_voiced)"
  by (simp add: apply_vad_def np_concatenate_def Let_def)

text \<open>
  Claim C5. \<open>apply_vad\<close> never raises, and on a non-empty waveform it returns a non-empty
  one. The fallbacks: the trimmed signal is the original when trimming empties it; the result
  is the trimmed signal when splitting finds no interval and when the concatenated intervals
  are empty. (The functions of librosa are total parameters here: the statement is about the
  code around them, in particular \<^verbatim>\<open>np.concatenate\<close>, which raises on an empty list.)
\<close>

theorem apply_vad_nonempty:
  "(\<exists>v. apply_vad ext y t1 t2 = Inr v \<and> (y \<noteq> [] \<longrightarrow> v \<noteq> [])) \<and>
   (let y_trimmed = (if effects_trim ext y t1 = [] then y else effects_trim ext y t1);
        intervals = effects_split ext y_trimmed t2
    in (intervals = [] \<longrightarrow> apply_vad ext y t1 t2 = Inr y_trimmed) \<and>
       (concat (map (\<lambda>(start, stop). py_slice y_trimmed start stop) intervals) = []
          \<longrightarrow> apply_vad ext y t1 t2 = Inr y_trimmed))"
  by (auto simp: apply_vad_eq Let_def)

text \<open>
  Claim C5 on three samples of silence, where trimming removes everything and splitting finds
  nothing: the original comes back.
\<close>

theorem apply_vad_nonempty_witness:
  "apply_vad \<lparr> path_exists = (\<lambda>filepath. True),
               librosa_load = (\<lambda>filepath sr. Inr ([], sr)),
               effects_trim = (\<lambda>y top_db. []),
               effects_split = (\<lambda>y top_db. []),
               feature_mfcc = (\<lambda>y sr n_mfcc n_fft hop_length n_mels. []) \<rparr>
             [0, 0, 0] 25 30 = Inr [0, 0, 0] \<and>
   [0, 0, 0 :: real] \<noteq> []"
  using apply_vad_nonempty [of "\<lparr> path_exists = (\<lambda>filepath. True),
               librosa_load = (\<lambda>filepath sr. Inr ([], sr)),
               effects_trim = (\<lambda>y top_db. []),
               effects_split = (\<lambda>y top_db. []),
               feature_mfcc = (\<lambda>y sr n_mfcc n_fft hop_length n_mels. []) \<rparr>" "[0, 0, 0]" 25 30]
  by simp

lemma extract_features_eq:
  "extract_features ext filepath =
     (if \<not> path_exists ext filepath
      then Inl (FileNotFoundError (''Audio file not found: '' @ filepath))
      else
        case librosa_load ext filepath SAMPLE_RATE of
          Inl e \<Rightarrow> Inl e
        | Inr (y, sr) \<Rightarrow>
            if y = [] then Inl (ValueError ''Empty audio signal.'')
            else
              case apply_vad ext y 25 30 of
                Inl e \<Rightarrow> Inl e
              | Inr y_voiced \<Rightarrow>
                  if real (length y_voiced) < 0.5 * real SAMPLE_RATE
                  then Inl (ValueError ''Less than 0.5s of voiced speech.'')
                  else if length (feature_mfcc ext y_voiced sr N_MFCC N_FFT HOP_LENGTH N_MELS) < 2
                  then Inl (ValueError ''Not enough MFCC coefficients computed.'')
                  else Inr (renormalized (raw_statistics
                         (feature_mfcc ext y_voiced sr N_MFCC N_FFT HOP_LENGTH N_MELS))))"
  unfolding extract_features_def renormalized_def raw_statistics_def Let_def
  by (simp split: sum.split prod.split)

text \<open>
  Claim C4. The errors of \<open>extract_features\<close> are returned to the caller, never replaced by a
  feature vector: a missing file gives \<^verbatim>\<open>FileNotFoundError\<close>, an exception of the loader
  is passed on, an empty waveform gives \<^verbatim>\<open>ValueError("Empty audio signal.")\<close> (the
  specification's InputError), and for a non-empty waveform the result is
  \<^verbatim>\<open>ValueError("Less than 0.5s of voiced speech.")\<close> (the specification's
  InsufficientAudioError) exactly when the voiced waveform has fewer than
  \<open>0.5 * SAMPLE_RATE\<close> samples.
\<close>

theorem extract_features_errors:
  "(\<not> path_exists ext filepath \<longrightarrow>
      extract_features ext filepath
        = Inl (FileNotFoundError (''Audio file not found: '' @ filepath))) \<and>
   (path_exists ext filepath \<and> librosa_load ext filepath SAMPLE_RATE = Inl e \<longrightarrow>
      extract_features ext filepath = Inl e) \<and>
   (path_exists ext filepath \<and> librosa_load ext filepath SAMPLE_RATE = Inr (y, sr) \<longrightarrow>
      (y = [] \<longrightarrow> extract_features ext filepath = Inl (ValueError ''Empty audio signal.'')) \<and>
      (y \<noteq> [] \<longrightarrow>
         (extract_features ext filepath = Inl (ValueError ''Less than 0.5s of voiced speech.'')
            \<longleftrightarrow> (\<exists>y_voiced. apply_vad ext y 25 30 = Inr y_voiced \<and>
                   real (length y_voiced) < 0.5 * real SAMPLE_RATE))))"
proof -
  obtain v where v: "apply_vad ext y 25 30 = Inr v"
    using apply_vad_eq [of ext y 25 30] by (auto simp: Let_def split: if_splits)
  show ?thesis
    by (auto simp: extract_features_eq v)
qed

lemma extract_features_InrD:
  assumes "extract_features ext filepath = Inr fv"
  shows "\<exists>y sr y_voiced.
           librosa_load ext filepath SAMPLE_RATE = Inr (y, sr) \<and>
           apply_vad ext y 25 30 = Inr y_voiced \<and>
           2 \<le> length (feature_mfcc ext y_voiced sr N_MFCC N_FFT HOP_LENGTH N_MELS) \<and>
           fv = renormalized (raw_statistics
                  (feature_mfcc ext y_voiced sr N_MFCC N_FFT HOP_LENGTH N_MELS))"
  using assms unfolding extract_features_eq
  by (auto split: if_splits sum.splits prod.splits)

lemma length_raw_statistics: "length (raw_statistics mfcc) = 2 * (length mfcc - 1)"
  by (simp add: raw_statistics_def)

text \<open>
  Claim C8. A feature vector that \<open>extract_features\<close> returns is the (re-normalized)
  concatenation of the row means and the row standard deviations of the MFCC matrix without
  its first row, so its dimension is twice the number of rows minus one: \<open>2 * (N_MFCC - 1)\<close>
  when the matrix has the \<open>N_MFCC\<close> rows that were asked for.
\<close>

theorem extract_features_dimension:
  assumes "extract_features ext filepath = Inr fv"
  shows "\<exists>y sr y_voiced mfcc.
           librosa_load ext filepath SAMPLE_RATE = Inr (y, sr) \<and>
           apply_vad ext y 25 30 = Inr y_voiced \<and>
           mfcc = feature_mfcc ext y_voiced sr N_MFCC N_FFT HOP_LENGTH N_MELS \<and>
           fv = renormalized (raw_statistics mfcc) \<and>
           length fv = 2 * (length mfcc - 1) \<and>
           (length mfcc = N_MFCC \<longrightarrow> length fv = 2 * (N_MFCC - 1))"
proof -
  from extract_features_InrD [OF assms]
  obtain y sr y_voiced where
    "librosa_load ext filepath SAMPLE_RATE = Inr (y, sr)"
    "apply_vad ext y 25 30 = Inr y_voiced"
    "fv = renormalized (raw_statistics
            (feature_mfcc ext y_voiced sr N_MFCC N_FFT HOP_LENGTH N_MELS))"
    by blast
  then show ?thesis
    by (auto simp: length_renormalized length_raw_statistics)
qed



lemma np_mean_pair: "np_mean [c, c] = c"
  by (simp add: np_mean_def)

lemma np_std_pair: "np_std [c, c] = 0"
  by (simp add: np_std_def np_mean_def)

lemma raw_statistics_example:
  "raw_statistics ([0, 0] # [c, c] # replicate 11 [0, 0]) = c # replicate 23 0"
proof -
  have "raw_statistics ([0, 0] # [c, c] # replicate 11 [0, 0])
          = (c # replicate 11 0) @ (0 # replicate 11 0)"
    using np_mean_pair [of 0] np_std_pair [of 0]
    by (simp add: raw_statistics_def np_mean_pair np_std_pair)
  also have "\<dots> = c # replicate 23 0"
    by (simp add: replicate_add [symmetric] flip: replicate_Suc)
  finally show ?thesis .
qed


lemma apply_vad_example:
  "0 < n \<Longrightarrow> apply_vad (example_ext n c) (replicate n 1) 25 30 = Inr (replicate n 1)"
  by (simp add: apply_vad_eq example_ext_def py_slice_def slice_bound_def)

lemma extract_features_example:
  "8000 \<le> n \<Longrightarrow> extract_features (example_ext n c) filepath = Inr (renormalized (c # replicate 23 0))"
proof -
  assume n: "8000 \<le> n"
  then have "0 < n" by simp
  from apply_vad_example [OF this, of c] n show ?thesis
    unfolding extract_features_eq
    by (simp add: example_ext_def SAMPLE_RATE_def N_MFCC_def raw_statistics_example)
qed

text \<open>Claim C8 in the example environment: 13 coefficients give 24 components.\<close>

theorem extract_features_dimension_witness:
  "\<exists>fv. extract_features (example_ext 8000 1) ''sample.wav'' = Inr fv \<and> length fv = 24"
proof -
  let ?fv = "renormalized (1 # replicate 23 0)"
  have e: "extract_features (example_ext 8000 1) ''sample.wav'' = Inr ?fv"
    by (rule extract_features_example) simp
  from extract_features_dimension [OF e]
  have "length ?fv = 24"
    by (auto simp: example_ext_def N_MFCC_def)
  with e show ?thesis by blast
qed



text \<open>
  Claim C4 in the example environment: 100 samples are too short, no sample is an empty
  signal, a missing file is reported, and 8000 samples pass the duration check.
\<close>

theorem extract_features_errors_witness:
  "extract_features (example_ext 100 1) ''short.wav''
     = Inl (ValueError ''Less than 0.5s of voiced speech.'') \<and>
   extract_features (example_ext 0 1) ''empty.wav'' = Inl (ValueError ''Empty audio signal.'') \<and>
   extract_features ((example_ext 100 1)\<lparr>path_exists := (\<lambda>filepath. False)\<rparr>) ''missing.wav''
     = Inl (FileNotFoundError ''Audio file not found: missing.wav'') \<and>
   extract_features (example_ext 8000 1) ''sample.wav''
     \<noteq> Inl (ValueError ''Less than 0.5s of voiced speech.'')"
proof -
  have v: "apply_vad (example_ext n 1) (replicate n 1) 25 30 = Inr (replicate n 1)" if "0 < n" for n
    using that by (rule apply_vad_example)
  have "extract_features (example_ext 100 1) ''short.wav''
          = Inl (ValueError ''Less than 0.5s of voiced speech.'')"
    using extract_features_errors
            [of "example_ext 100 1" "''short.wav''" "LoadError []" "replicate 100 1" SAMPLE_RATE]
          v [of 100]
    by (simp add: example_ext_def SAMPLE_RATE_def)
  moreover have "extract_features (example_ext 0 1) ''empty.wav''
          = Inl (ValueError ''Empty audio signal.'')"
    using extract_features_errors
            [of "example_ext 0 1" "''empty.wav''" "LoadError []" "[]" SAMPLE_RATE]
    by (simp add: example_ext_def)
  moreover have "extract_features ((example_ext 100 1)\<lparr>path_exists := (\<lambda>filepath. False)\<rparr>)
            ''missing.wav'' = Inl (FileNotFoundError ''Audio file not found: missing.wav'')"
    using extract_features_errors
            [of "(example_ext 100 1)\<lparr>path_exists := (\<lambda>filepath. False)\<rparr>" "''missing.wav''"]
    by simp
  moreover have "extract_features (example_ext 8000 1) ''sample.wav''
          \<noteq> Inl (ValueError ''Less than 0.5s of voiced speech.'')"
    using extract_features_errors
            [of "example_ext 8000 1" "''sample.wav''" "LoadError []" "replicate 8000 1" SAMPLE_RATE]
          v [of 8000]
    by (simp add: example_ext_def SAMPLE_RATE_def)
  ultimately show ?thesis by blast
qed


section \<open>The order of the doubles\<close>

lemma dless_dle_trans: "dless a b \<Longrightarrow> dle b c \<Longrightarrow> dless a c"
  by (cases a; cases b; cases c) (auto simp: dle_def deq_def)

lemma not_dless_dle: "a \<noteq> NaN \<Longrightarrow> b \<noteq> NaN \<Longrightarrow> \<not> dless a b \<Longrightarrow> dle b a"
  by (cases a; cases b) (auto simp: dle_def deq_def)

lemma dle_refl: "a \<noteq> NaN \<Longrightarrow> dle a a"
  by (simp add: dle_def deq_def)

lemma dless_imp_dle: "dless a b \<Longrightarrow> dle a b"
  by (simp add: dle_def)


section \<open>The matcher\<close>

lemma length_renormalized_float: "length (renormalized_float np v) = length v"
  by (simp add: renormalized_float_def)

lemma cosine_distance_eq:
  "length a = length b \<Longrightarrow> cosine_distance np a b = Inr (cosine_formula np a b)"
  by (simp add: cosine_distance_def np_dot_def cosine_formula_def)

lemma keep_best_pair:
  "keep_best (bu, bd) (u, d) =
     (if (case bd of None \<Rightarrow> True | Some b \<Rightarrow> dless d b) then (Some u, Some d) else (bu, bd))"
  by (simp add: keep_best_def split: option.split)

lemma predict_loop_foldl:
  "predict_loop np q vps best =
     Inr (foldl keep_best best
            (map (\<lambda>(u, v). (u, cosine_formula np q (renormalized_float np v)))
               (shape_matching vps q)))"
proof (induction vps arbitrary: best)
  case Nil
  then show ?case by (simp add: shape_matching_def)
next
  case (Cons uv vps)
  obtain u v where uv: "uv = (u, v)" by (cases uv)
  obtain bu bd where best: "best = (bu, bd)" by (cases best)
  show ?case
  proof (cases "length v = length q")
    case False
    then show ?thesis
      using Cons.IH [of best] by (simp add: uv best shape_matching_def)
  next
    case True
    then have cd: "cosine_distance np q
                     (if dgt (vec_norm np v) literal_1e_10
                      then map (\<lambda>x. fl_div np x (vec_norm np v)) v else v)
                   = Inr (cosine_formula np q (renormalized_float np v))"
      using cosine_distance_eq [of q "renormalized_float np v" np]
      by (simp add: renormalized_float_def)
    show ?thesis
      using True Cons.IH cd
      by (simp add: uv best shape_matching_def keep_best_pair Let_def)
  qed
qed

lemma foldl_keep_best_Some:
  "xs \<noteq> [] \<Longrightarrow> \<exists>u d. foldl keep_best (None, None) xs = (Some u, Some d)"
proof (induction xs rule: rev_nonempty_induct)
  case (single x)
  then show ?case by (simp add: keep_best_def)
next
  case (snoc x xs)
  then obtain u d where "foldl keep_best (None, None) xs = (Some u, Some d)" by blast
  then show ?case by (cases x) (simp add: keep_best_pair)
qed

lemma foldl_keep_best_first_min:
  assumes "xs \<noteq> []" and "\<forall>x\<in>set xs. snd x \<noteq> NaN"
  shows "\<exists>i<length xs.
           foldl keep_best (None, None) xs = (Some (fst (xs ! i)), Some (snd (xs ! i))) \<and>
           (\<forall>j<length xs. dle (snd (xs ! i)) (snd (xs ! j))) \<and>
           (\<forall>j<i. dless (snd (xs ! i)) (snd (xs ! j)))"
  using assms
proof (induction xs rule: rev_nonempty_induct)
  case (single x)
  then show ?case by (simp add: keep_best_def dle_refl)
next
  case (snoc x xs)
  then obtain i where i: "i < length xs"
    and res: "foldl keep_best (None, None) xs = (Some (fst (xs ! i)), Some (snd (xs ! i)))"
    and low: "\<forall>j<length xs. dle (snd (xs ! i)) (snd (xs ! j))"
    and first: "\<forall>j<i. dless (snd (xs ! i)) (snd (xs ! j))"
    by auto
  from snoc.prems have x: "snd x \<noteq> NaN" by simp
  from snoc.prems i have xi: "snd (xs ! i) \<noteq> NaN" by simp
  show ?case
  proof (cases "dless (snd x) (snd (xs ! i))")
    case True
    have "foldl keep_best (None, None) (xs @ [x]) = (Some (fst x), Some (snd x))"
      using True by (simp add: res keep_best_def)
    moreover have below: "dless (snd x) (snd (xs ! j))" if "j < length xs" for j
      using True low that by (blast intro: dless_dle_trans)
    then have "\<forall>j<length (xs @ [x]). dle (snd x) (snd ((xs @ [x]) ! j))"
      using x by (auto simp: nth_append less_Suc_eq dless_imp_dle dle_refl)
    moreover have "\<forall>j<length xs. dless (snd x) (snd ((xs @ [x]) ! j))"
      using below by (simp add: nth_append)
    ultimately show ?thesis
      by (intro exI [of _ "length xs"]) simp
  next
    case False
    have "foldl keep_best (None, None) (xs @ [x]) = (Some (fst (xs ! i)), Some (snd (xs ! i)))"
      using False by (simp add: res keep_best_def)
    moreover have "dle (snd (xs ! i)) (snd x)"
      using x xi False by (rule not_dless_dle)
    then have "\<forall>j<length (xs @ [x]). dle (snd (xs ! i)) (snd ((xs @ [x]) ! j))"
      using low by (auto simp: nth_append less_Suc_eq)
    moreover have "\<forall>j<i. dless (snd (xs ! i)) (snd ((xs @ [x]) ! j))"
      using first i by (auto simp: nth_append)
    ultimately show ?thesis
      using i by (intro exI [of _ i]) (simp add: nth_append)
  qed
qed

lemma shape_matching_renormalized:
  "shape_matching vps (renormalized_float np q) = shape_matching vps q"
  by (simp add: shape_matching_def length_renormalized_float)

lemma predict_speaker_alt:
  "predict_speaker np vps q =
     (if vps = [] then Inr (None, None)
      else case predict_loop np (renormalized_float np q) vps (None, None) of
             Inl e \<Rightarrow> Inl e
           | Inr (best_user, best_distance) \<Rightarrow>
               if best_user = None then Inr (None, None)
               else Inr (best_user, best_distance))"
  unfolding predict_speaker_def renormalized_float_def Let_def ..

lemma predict_speaker_eq:
  "predict_speaker np vps q =
     Inr (if shape_matching vps q = [] then (None, None)
          else foldl keep_best (None, None)
                 (map (\<lambda>(u, v). (u, entry_distance np q v)) (shape_matching vps q)))"
proof (cases "shape_matching vps q = []")
  case True
  then show ?thesis
    unfolding predict_speaker_alt predict_loop_foldl shape_matching_renormalized
    by simp
next
  case False
  let ?xs = "map (\<lambda>(u, v). (u, entry_distance np q v)) (shape_matching vps q)"
  from False have "?xs \<noteq> []" by simp
  from foldl_keep_best_Some [OF this]
  obtain u d where "foldl keep_best (None, None) ?xs = (Some u, Some d)" by blast
  moreover from False have "vps \<noteq> []" by (auto simp: shape_matching_def)
  ultimately show ?thesis
    unfolding predict_speaker_alt predict_loop_foldl shape_matching_renormalized
      entry_distance_def
    using False by simp
qed

lemma shape_matching_nth_length:
  "j < length (shape_matching vps q) \<Longrightarrow> length (snd (shape_matching vps q ! j)) = length q"
  using nth_mem [of j "shape_matching vps q"]
  by (auto simp: shape_matching_def)

text \<open>
  Claim C1, amended. When the mapping holds at least one entry whose shape equals the
  query's, and none of the distances computed for the shape-matching entries is NaN,
  \<open>predict_speaker\<close> returns a user and a distance: the distance is the cosine distance, in
  the program's floating-point arithmetic, between the re-normalized query and the
  re-normalized stored vector of the returned user; no shape-matching entry has a smaller one;
  and every shape-matching entry before it in iteration order has a strictly larger one. So
  the distance is the minimum of the computed distances and the user is the first to attain it.
\<close>

theorem predict_speaker_first_minimum:
  assumes "\<exists>(u, v)\<in>set voiceprints. length v = length q"
    and "\<forall>(u, v)\<in>set (shape_matching voiceprints q). entry_distance np q v \<noteq> NaN"
  shows "\<exists>i<length (shape_matching voiceprints q).
           predict_speaker np voiceprints q
             = Inr (Some (fst (shape_matching voiceprints q ! i)),
                    Some (entry_distance np q (snd (shape_matching voiceprints q ! i)))) \<and>
           (\<forall>j<length (shape_matching voiceprints q).
              dle (entry_distance np q (snd (shape_matching voiceprints q ! i)))
                  (entry_distance np q (snd (shape_matching voiceprints q ! j)))) \<and>
           (\<forall>j<i.
              dless (entry_distance np q (snd (shape_matching voiceprints q ! i)))
                    (entry_distance np q (snd (shape_matching voiceprints q ! j))))"
proof -
  let ?cs = "shape_matching voiceprints q"
  let ?f = "\<lambda>(u, v). (u, entry_distance np q v)"
  from assms(1) have ne: "?cs \<noteq> []"
    by (auto simp: shape_matching_def filter_empty_conv)
  then have ne': "map ?f ?cs \<noteq> []" by simp
  from assms(2) have "\<forall>x\<in>set (map ?f ?cs). snd x \<noteq> NaN"
    by auto
  from foldl_keep_best_first_min [OF ne' this]
  obtain i where i: "i < length ?cs"
    and res: "foldl keep_best (None, None) (map ?f ?cs)
                = (Some (fst (map ?f ?cs ! i)), Some (snd (map ?f ?cs ! i)))"
    and low: "\<forall>j<length ?cs. dle (snd (map ?f ?cs ! i)) (snd (map ?f ?cs ! j))"
    and first: "\<forall>j<i. dless (snd (map ?f ?cs ! i)) (snd (map ?f ?cs ! j))"
    by auto
  have fst_f: "fst (map ?f ?cs ! j) = fst (?cs ! j)"
    and snd_f: "snd (map ?f ?cs ! j) = entry_distance np q (snd (?cs ! j))"
    if "j < length ?cs" for j
    using that by (simp_all add: case_prod_unfold)
  have "predict_speaker np voiceprints q
          = Inr (Some (fst (?cs ! i)), Some (entry_distance np q (snd (?cs ! i))))"
    using ne res fst_f [OF i] snd_f [OF i] by (simp add: predict_speaker_eq)
  moreover have "\<forall>j<length ?cs.
      dle (entry_distance np q (snd (?cs ! i))) (entry_distance np q (snd (?cs ! j)))"
    using low snd_f i by simp
  moreover have "\<forall>j<i.
      dless (entry_distance np q (snd (?cs ! i))) (entry_distance np q (snd (?cs ! j)))"
    using first snd_f i by simp
  ultimately show ?thesis
    using i by blast
qed

text \<open>
  Claim C7. \<open>predict_speaker\<close> returns \<open>(None, None)\<close> on the empty mapping, and in general
  exactly when every voiceprint of the mapping differs from the query in dimension (which
  covers the empty mapping). It never raises.
\<close>

theorem predict_speaker_none_iff:
  "predict_speaker np [] q = Inr (None, None) \<and>
   (predict_speaker np voiceprints q = Inr (None, None)
      \<longleftrightarrow> (\<forall>(u, v)\<in>set voiceprints. length v \<noteq> length q))"
proof -
  let ?cs = "shape_matching voiceprints q"
  let ?f = "\<lambda>(u, v). (u, entry_distance np q v)"
  have empty: "?cs = [] \<longleftrightarrow> (\<forall>(u, v)\<in>set voiceprints. length v \<noteq> length q)"
    by (auto simp: shape_matching_def filter_empty_conv)
  have "predict_speaker np voiceprints q \<noteq> Inr (None, None)" if "?cs \<noteq> []"
  proof -
    from that have "map ?f ?cs \<noteq> []" by simp
    from foldl_keep_best_Some [OF this]
    obtain u d where "foldl keep_best (None, None) (map ?f ?cs) = (Some u, Some d)" by blast
    with that show ?thesis by (simp add: predict_speaker_eq)
  qed
  moreover have "predict_speaker np voiceprints q = Inr (None, None)" if "?cs = []"
    using that by (simp add: predict_speaker_eq)
  moreover have "predict_speaker np [] q = Inr (None, None)"
    by (simp add: predict_speaker_def)
  ultimately show ?thesis
    using empty by blast
qed

lemma deq_zero: "deq a (Fin 0) \<longleftrightarrow> a = Fin 0"
  by (auto simp: deq_def)

lemma not_dgt_zero_literal: "\<not> dgt (Fin 0) literal_1e_10"
  by (simp add: dgt_def literal_1e_10_def)

section \<open>Rounding to a double\<close>

lemma pow2_powr: "pow2 e = 2 powr (of_int e)"
proof (cases "0 \<le> e")
  case True
  then have "2 powr (of_int e) = (2::real) powr (real (nat e))" by simp
  also have "\<dots> = 2 ^ nat e" by (simp add: powr_realpow)
  finally show ?thesis using True by (simp add: pow2_def)
next
  case False
  then have "(2::real) powr (of_int e) = 2 powr (- real (nat (- e)))" by simp
  also have "\<dots> = 1 / 2 powr (real (nat (- e)))" by (simp add: powr_minus_divide)
  also have "\<dots> = 1 / 2 ^ nat (- e)" by (simp add: powr_realpow)
  finally show ?thesis using False by (simp add: pow2_def)
qed

lemma pow2_pos: "0 < pow2 e"
  by (simp add: pow2_powr)

lemma pow2_add: "pow2 (a + b) = pow2 a * pow2 b"
  by (simp add: pow2_powr powr_add)

lemma pow2_less_iff: "pow2 a < pow2 b \<longleftrightarrow> a < b"
  by (simp add: pow2_powr)

lemma pow2_nonneg_int: "0 \<le> e \<Longrightarrow> pow2 e = of_int (2 ^ nat e)"
  by (simp add: pow2_def)

lemma floor_log2: 
  assumes "pow2 k \<le> \<bar>x\<bar>" and "\<bar>x\<bar> < pow2 (k + 1)"
  shows "\<lfloor>log 2 \<bar>x\<bar>\<rfloor> = k"
proof -
  have "0 < \<bar>x\<bar>" using assms(1) pow2_pos [of k] by linarith
  then show ?thesis
    using assms by (simp add: floor_log_eq_powr_iff pow2_powr)
qed

lemma floor_log2_bounds:
  assumes "x \<noteq> 0"
  shows "pow2 \<lfloor>log 2 \<bar>x\<bar>\<rfloor> \<le> \<bar>x\<bar>" and "\<bar>x\<bar> < pow2 (\<lfloor>log 2 \<bar>x\<bar>\<rfloor> + 1)"
proof -
  have "0 < \<bar>x\<bar>" using assms by simp
  then have "\<lfloor>log 2 \<bar>x\<bar>\<rfloor> = \<lfloor>log 2 \<bar>x\<bar>\<rfloor> \<longleftrightarrow>
      2 powr (of_int \<lfloor>log 2 \<bar>x\<bar>\<rfloor>) \<le> \<bar>x\<bar> \<and> \<bar>x\<bar> < 2 powr (of_int (\<lfloor>log 2 \<bar>x\<bar>\<rfloor> + 1))"
    by (intro floor_log_eq_powr_iff) simp_all
  then show "pow2 \<lfloor>log 2 \<bar>x\<bar>\<rfloor> \<le> \<bar>x\<bar>" and "\<bar>x\<bar> < pow2 (\<lfloor>log 2 \<bar>x\<bar>\<rfloor> + 1)"
    by (simp_all add: pow2_powr)
qed

lemma round_half_even_int: "round_half_even (of_int z) = z"
  by (simp add: round_half_even_def)

text \<open>A real that is a double is rounded to itself.\<close>

lemma round_double_exact:
  assumes x: "x = of_int m * pow2 e0" and m: "\<bar>m\<bar> < 2 ^ 53" and e0: "- 1074 \<le> e0"
    and fin: "\<bar>x\<bar> < 2 ^ 1024"
  shows "round_double x = Fin x"
proof (cases "x = 0")
  case True
  then show ?thesis by (simp add: round_double_def)
next
  case False
  define k where "k = \<lfloor>log 2 \<bar>x\<bar>\<rfloor>"
  define e where "e = max k (- 1022)"
  have lo: "pow2 k \<le> \<bar>x\<bar>"
    unfolding k_def using False by (rule floor_log2_bounds)
  have "\<bar>x\<bar> = of_int \<bar>m\<bar> * pow2 e0"
    using pow2_pos [of e0] by (simp add: x abs_mult)
  also have "\<dots> < 2 ^ 53 * pow2 e0"
  proof -
    have "(of_int \<bar>m\<bar> :: real) < of_int (2 ^ 53)"
      using m by (simp only: of_int_less_iff)
    then show ?thesis using pow2_pos [of e0] by simp
  qed
  also have "\<dots> = pow2 (53 + e0)"
  proof -
    have "(2::real) ^ 53 = pow2 53" by (simp add: pow2_def)
    then show ?thesis by (simp only: pow2_add)
  qed
  finally have "pow2 k < pow2 (53 + e0)"
    using lo by linarith
  then have "k < 53 + e0" by (simp add: pow2_less_iff)
  then have d: "0 \<le> e0 - (e - 52)"
    using e0 by (simp add: e_def)
  have "pow2 e0 = pow2 (e0 - (e - 52)) * pow2 (e - 52)"
    by (simp flip: pow2_add)
  then have "x / pow2 (e - 52) = of_int m * pow2 (e0 - (e - 52))"
    using pow2_pos [of "e - 52"] by (simp add: x)
  also have "\<dots> = of_int (m * 2 ^ nat (e0 - (e - 52)))"
    using d by (simp add: pow2_nonneg_int)
  finally have q: "x / pow2 (e - 52) = of_int (m * 2 ^ nat (e0 - (e - 52)))" .
  have r: "of_int (round_half_even (x / pow2 (e - 52))) * pow2 (e - 52) = x"
    unfolding q round_half_even_int
    using q pow2_pos [of "e - 52"] by (simp add: field_simps)
  show ?thesis
    using False fin
    unfolding round_double_def k_def [symmetric] Let_def e_def [symmetric] r
    by (simp add: not_le)
qed

lemma round_double_int: "\<bar>i\<bar> < 2 ^ 53 \<Longrightarrow> round_double (of_int i) = Fin (of_int i)"
proof -
  assume a: "\<bar>i\<bar> < 2 ^ 53"
  then have "\<bar>of_int i :: real\<bar> < of_int (2 ^ 53)"
    by (simp only: of_int_abs [symmetric] of_int_less_iff)
  also have "\<dots> < 2 ^ 1024" by simp
  finally have "\<bar>of_int i :: real\<bar> < 2 ^ 1024" .
  with a show ?thesis
    by (intro round_double_exact [where m = i and ?e0.0 = 0]) (simp_all add: pow2_def)
qed

lemma round_double_0 [simp]: "round_double 0 = Fin 0"
  by (simp add: round_double_def)

lemma round_double_1 [simp]: "round_double 1 = Fin 1"
  using round_double_int [of 1] by simp

lemma round_double_numeral [simp]:
  "numeral n < (2::int) ^ 53 \<Longrightarrow> round_double (numeral n) = Fin (numeral n)"
  using round_double_int [of "numeral n"] by simp

lemma round_double_neg_numeral [simp]:
  "numeral n < (2::int) ^ 53 \<Longrightarrow> round_double (- numeral n) = Fin (- numeral n)"
  using round_double_int [of "- numeral n"] by simp

lemma round_double_neg_1 [simp]: "round_double (- 1) = Fin (- 1)"
  using round_double_int [of "- 1"] by simp

lemma round_double_inverse_pow2:
  "n \<le> 1074 \<Longrightarrow> round_double (1 / 2 ^ n) = Fin (1 / 2 ^ n)"
proof -
  assume n: "n \<le> 1074"
  have "(1::real) / 2 ^ n \<le> 1" and "0 \<le> (1::real) / 2 ^ n" by simp_all
  moreover have "(1::real) < 2 ^ 1024" by simp
  ultimately have "\<bar>(1::real) / 2 ^ n\<bar> < 2 ^ 1024" by linarith
  moreover have "(1::real) / 2 ^ n = of_int 1 * pow2 (- int n)"
    by (simp add: pow2_def)
  ultimately show ?thesis
    using n by (intro round_double_exact [where m = 1 and ?e0.0 = "- int n"]) simp_all
qed

text \<open>Rounding a real whose binary exponent is known.\<close>

lemma round_double_eval:
  assumes "pow2 k \<le> \<bar>x\<bar>" and "\<bar>x\<bar> < pow2 (k + 1)"
  shows "round_double x =
           (let q = pow2 (max k (- 1022) - 52);
                r = of_int (round_half_even (x / q)) * q
            in if \<bar>r\<bar> \<ge> 2 ^ 1024 then (if 0 < x then PInf else NInf) else Fin r)"
proof -
  have "x \<noteq> 0" using assms(1) pow2_pos [of k] by auto
  then show ?thesis
    unfolding round_double_def floor_log2 [OF assms] Let_def by simp
qed

section \<open>The matcher in the example arithmetic\<close>

lemmas ieee_simps =
  ieee_arith_def ieee_dot_def ieee_sub_def literal_1e_10_def dgt_def deq_def dle_def
  sign_of_def infinity_of_def

lemma small_stored_vector:
  assumes t: "0 < t" and r1: "round_double t = Fin t" and r2: "round_double (t * t) = Fin (t * t)"
    and small: "t < 7737125245533627 / 2 ^ 86"
  shows "vec_norm ieee_arith [Fin t] = Fin t"
    and "cosine_distance ieee_arith [Fin 1] [Fin t] = Inr (Fin 0)"
    and "predict_speaker ieee_arith [(u, [Fin t])] [Fin 1] = Inr (Some u, Some (Fin 0))"
proof -
  show n: "vec_norm ieee_arith [Fin t] = Fin t"
    using t by (simp add: ieee_simps r1 r2)
  have n1: "vec_norm ieee_arith [Fin 1] = Fin 1"
    by (simp add: ieee_simps)
  have d: "vec_dot ieee_arith [Fin 1] [Fin t] = Fin t"
    by (simp add: ieee_simps r1)
  show c: "cosine_distance ieee_arith [Fin 1] [Fin t] = Inr (Fin 0)"
    unfolding cosine_distance_def np_dot_def n n1 d
    using t by (simp add: ieee_simps r1)
  have "\<not> dgt (Fin t) literal_1e_10"
    using small by (simp add: ieee_simps)
  moreover have "dgt (Fin 1) literal_1e_10"
    by (simp add: ieee_simps)
  moreover have "fl_div ieee_arith (Fin 1) (Fin 1) = Fin 1"
    by (simp add: ieee_simps)
  ultimately show "predict_speaker ieee_arith [(u, [Fin t])] [Fin 1] = Inr (Some u, Some (Fin 0))"
    unfolding predict_speaker_def by (simp add: n n1 c)
qed

lemma zero_vector_dot:
  "foldl (\<lambda>acc (x, y). ieee_add acc (ieee_mul x y)) (Fin 0) (replicate n (Fin 0, Fin 0)) = Fin 0"
  by (induction n) simp_all

lemma zero_vector_norm: "vec_norm ieee_arith (replicate n (Fin 0)) = Fin 0"
  by (simp add: ieee_arith_def ieee_dot_def zip_replicate zero_vector_dot)

text \<open>
  Claim C2, amended. For vectors of equal dimension the cosine distance is exactly 2 when the
  computed norm of either is exactly zero, and \<open>1 - (a . b) / (|a| * |b|)\<close> in floating point
  otherwise: there is no test against \<open>1e-10\<close>. A stored voiceprint of the query's
  dimension whose computed norm is zero gets the distance 2 whatever the query is; the zero
  vector is one, its norm being computed without rounding.
\<close>

theorem cosine_distance_zero_norm:
  "(length a = length b \<longrightarrow>
      cosine_distance np a b =
        Inr (if deq (vec_norm np a) (Fin 0) \<or> deq (vec_norm np b) (Fin 0) then Fin 2
             else fl_sub np (Fin 1)
                    (fl_div np (vec_dot np a b) (fl_mul np (vec_norm np a) (vec_norm np b))))) \<and>
   (length v = length q \<and> deq (vec_norm np v) (Fin 0) \<longrightarrow>
      predict_speaker np [(u, v)] q = Inr (Some u, Some (Fin 2))) \<and>
   predict_speaker ieee_arith [(u, replicate (length q) (Fin 0))] q = Inr (Some u, Some (Fin 2))"
proof -
  have two: "predict_speaker np' [(u, v')] q = Inr (Some u, Some (Fin 2))"
    if a: "length v' = length q \<and> deq (vec_norm np' v') (Fin 0)" for np' v'
  proof -
    from a have n: "vec_norm np' v' = Fin 0" by (simp add: deq_zero)
    then have "renormalized_float np' v' = v'"
      by (simp add: renormalized_float_def not_dgt_zero_literal)
    then have "entry_distance np' q v' = Fin 2"
      using a by (simp add: entry_distance_def cosine_formula_def)
    then show ?thesis
      using a by (simp add: predict_speaker_eq shape_matching_def keep_best_pair)
  qed
  have "length a = length b \<longrightarrow>
      cosine_distance np a b =
        Inr (if deq (vec_norm np a) (Fin 0) \<or> deq (vec_norm np b) (Fin 0) then Fin 2
             else fl_sub np (Fin 1)
                    (fl_div np (vec_dot np a b) (fl_mul np (vec_norm np a) (vec_norm np b))))"
    by (simp add: cosine_distance_eq cosine_formula_def)
  moreover have "length v = length q \<and> deq (vec_norm np v) (Fin 0) \<longrightarrow>
      predict_speaker np [(u, v)] q = Inr (Some u, Some (Fin 2))"
    using two by blast
  moreover have "predict_speaker ieee_arith [(u, replicate (length q) (Fin 0))] q
                   = Inr (Some u, Some (Fin 2))"
    by (rule two) (simp add: zero_vector_norm deq_def)
  ultimately show ?thesis by blast
qed

text \<open>
  Claim C2 as stated fails: the test in \<open>cosine_distance\<close> is \<open>norm == 0.0\<close>, not
  \<open>norm < 1e-10\<close>. The stored vector with the one component \<open>2 ^ -40\<close>, about \<open>9.1e-13\<close>,
  has a norm below \<open>1e-10\<close>; it is left unscaled by \<open>predict_speaker\<close> and gets the
  distance 0 from the query \<open>[1.0]\<close>. No operation rounds here.
\<close>

theorem cosine_distance_below_epsilon_counterexample:
  "dless (vec_norm ieee_arith [Fin (1 / 2 ^ 40)]) literal_1e_10 \<and>
   cosine_distance ieee_arith [Fin 1] [Fin (1 / 2 ^ 40)] = Inr (Fin 0) \<and>
   cosine_distance ieee_arith [Fin 1] [Fin (1 / 2 ^ 40)] \<noteq> Inr (Fin 2) \<and>
   predict_speaker ieee_arith [(''bob'', [Fin (1 / 2 ^ 40)])] [Fin 1]
     = Inr (Some ''bob'', Some (Fin 0))"
proof -
  have r1: "round_double (1 / 2 ^ 40) = Fin (1 / 2 ^ 40)"
    by (rule round_double_inverse_pow2) simp
  have "round_double (1 / 2 ^ 80) = Fin (1 / 2 ^ 80)"
    by (rule round_double_inverse_pow2) simp
  moreover have "(1::real) / 2 ^ 80 = 1 / 2 ^ 40 * (1 / 2 ^ 40)"
    by simp
  ultimately have r2: "round_double (1 / 2 ^ 40 * (1 / 2 ^ 40)) = Fin (1 / 2 ^ 40 * (1 / 2 ^ 40))"
    by (simp only:)
  have t: "(0::real) < 1 / 2 ^ 40" and small: "(1::real) / 2 ^ 40 < 7737125245533627 / 2 ^ 86"
    by simp_all
  note s = small_stored_vector [OF t r1 r2 small]
  show ?thesis
    unfolding s by (simp add: literal_1e_10_def)
qed

text \<open>Claim C2, amended, at a zero voiceprint.\<close>

theorem cosine_distance_zero_norm_witness:
  "length [Fin 0, Fin 0] = length [Fin 3, Fin 4] \<and>
   deq (vec_norm ieee_arith [Fin 0, Fin 0]) (Fin 0) \<and>
   cosine_distance ieee_arith [Fin 3, Fin 4] [Fin 0, Fin 0] = Inr (Fin 2) \<and>
   predict_speaker ieee_arith [(''bob'', [Fin 0, Fin 0])] [Fin 3, Fin 4]
     = Inr (Some ''bob'', Some (Fin 2))"
proof -
  have n: "deq (vec_norm ieee_arith [Fin 0, Fin 0]) (Fin 0)"
    by (simp add: ieee_simps)
  from cosine_distance_zero_norm
         [of "[Fin 3, Fin 4]" "[Fin 0, Fin 0]" ieee_arith "[Fin 0, Fin 0]" "[Fin 3, Fin 4]" "''bob''"] n
  show ?thesis by simp
qed

text \<open>Claim C7 at a mapping whose only entry has three components, for a query of two.\<close>

theorem predict_speaker_none_iff_witness:
  "length [Fin 1, Fin 0, Fin 0] \<noteq> length [Fin 1, Fin 0] \<and>
   predict_speaker ieee_arith [(''bob'', [Fin 1, Fin 0, Fin 0])] [Fin 1, Fin 0] = Inr (None, None) \<and>
   predict_speaker ieee_arith [(''bob'', [Fin 1, Fin 0])] [Fin 0, Fin 1] \<noteq> Inr (None, None)"
  using predict_speaker_none_iff [of ieee_arith "[Fin 1, Fin 0]" "[(''bob'', [Fin 1, Fin 0, Fin 0])]"]
        predict_speaker_none_iff [of ieee_arith "[Fin 0, Fin 1]" "[(''bob'', [Fin 1, Fin 0])]"]
  by simp

text \<open>
  Claim C1, amended, at a mapping with a mismatched entry and a tie: carol and dave are both
  at distance 0, and carol comes first. No operation rounds here.
\<close>

theorem predict_speaker_first_minimum_witness:
  "(\<exists>(u, v)\<in>set [(''alice'', [Fin 0, Fin 2]), (''bob'', [Fin 1, Fin 0, Fin 0]),
                    (''carol'', [Fin 2, Fin 0]), (''dave'', [Fin 1, Fin 0])].
      length v = length [Fin 1, Fin 0]) \<and>
   entry_distance ieee_arith [Fin 1, Fin 0] [Fin 0, Fin 2] = Fin 1 \<and>
   entry_distance ieee_arith [Fin 1, Fin 0] [Fin 2, Fin 0] = Fin 0 \<and>
   entry_distance ieee_arith [Fin 1, Fin 0] [Fin 1, Fin 0] = Fin 0 \<and>
   predict_speaker ieee_arith
     [(''alice'', [Fin 0, Fin 2]), (''bob'', [Fin 1, Fin 0, Fin 0]),
      (''carol'', [Fin 2, Fin 0]), (''dave'', [Fin 1, Fin 0])] [Fin 1, Fin 0]
     = Inr (Some ''carol'', Some (Fin 0))"
proof -
  let ?vps = "[(''alice'', [Fin 0, Fin 2]), (''bob'', [Fin 1, Fin 0, Fin 0]),
               (''carol'', [Fin 2, Fin 0]), (''dave'', [Fin 1, Fin 0])]"
  let ?q = "[Fin 1, Fin 0]"
  have h: "\<exists>(u, v)\<in>set ?vps. length v = length ?q"
    by simp
  have d: "entry_distance ieee_arith ?q [Fin 0, Fin 2] = Fin 1"
    "entry_distance ieee_arith ?q [Fin 2, Fin 0] = Fin 0"
    "entry_distance ieee_arith ?q [Fin 1, Fin 0] = Fin 0"
    by (simp_all add: entry_distance_def cosine_formula_def renormalized_float_def ieee_simps)
  have cs: "shape_matching ?vps ?q
              = [(''alice'', [Fin 0, Fin 2]), (''carol'', [Fin 2, Fin 0]), (''dave'', [Fin 1, Fin 0])]"
    by (simp add: shape_matching_def)
  have n: "\<forall>(u, v)\<in>set (shape_matching ?vps ?q). entry_distance ieee_arith ?q v \<noteq> NaN"
    unfolding cs by (simp add: d)
  let ?cs = "shape_matching ?vps ?q"
  from predict_speaker_first_minimum [OF h n]
  obtain i where i: "i < length ?cs"
    and r: "predict_speaker ieee_arith ?vps ?q
              = Inr (Some (fst (?cs ! i)), Some (entry_distance ieee_arith ?q (snd (?cs ! i))))"
    and low: "\<forall>j<length ?cs. dle (entry_distance ieee_arith ?q (snd (?cs ! i)))
                                (entry_distance ieee_arith ?q (snd (?cs ! j)))"
    and first: "\<forall>j<i. dless (entry_distance ieee_arith ?q (snd (?cs ! i)))
                         (entry_distance ieee_arith ?q (snd (?cs ! j)))"
    by blast
  from i have "i < 3" unfolding cs by simp
  then consider "i = 0" | "i = 1" | "i = 2" by linarith
  then have "i = 1"
  proof cases
    case 1
    have "1 < length ?cs" unfolding cs by simp
    with low have "dle (entry_distance ieee_arith ?q (snd (?cs ! i)))
                       (entry_distance ieee_arith ?q (snd (?cs ! 1)))"
      by blast
    then have "dle (Fin 1) (Fin 0)"
      unfolding cs 1 by (simp add: d)
    then show ?thesis by (simp add: dle_def deq_def)
  next
    case 2
    then show ?thesis .
  next
    case 3
    have "(1::nat) < i" unfolding 3 by simp
    with first have "dless (entry_distance ieee_arith ?q (snd (?cs ! i)))
                           (entry_distance ieee_arith ?q (snd (?cs ! 1)))"
      by blast
    then have "dless (Fin 0) (Fin 0)"
      unfolding cs 3 by (simp add: d)
    then show ?thesis by simp
  qed
  with r have "predict_speaker ieee_arith ?vps ?q = Inr (Some ''carol'', Some (Fin 0))"
    unfolding cs by (simp add: d)
  with h d show ?thesis by blast
qed

text \<open>
  Claim C1 as stated fails on a NaN: the distance of ann's entry is NaN, no later distance
  compares as smaller than NaN, and ann is returned with the distance NaN although bob is at
  distance 0.
\<close>

theorem predict_speaker_nan_counterexample:
  "predict_speaker ieee_arith [(''ann'', [NaN]), (''bob'', [Fin 1])] [Fin 1]
     = Inr (Some ''ann'', Some NaN) \<and>
   entry_distance ieee_arith [Fin 1] [NaN] = NaN \<and>
   entry_distance ieee_arith [Fin 1] [Fin 1] = Fin 0 \<and>
   \<not> dle NaN (Fin 0)"
  by (simp add: predict_speaker_def cosine_distance_def np_dot_def 
       entry_distance_def cosine_formula_def renormalized_float_def ieee_simps)

section \<open>Recomputing a voiceprint\<close>

lemma to_floats_floats: "to_floats np (map JFloat ds) = Inr ds"
  by (induction ds) simp_all

lemma np_array_floats: "np_array np (JList (map JFloat ds)) = Inr ds"
  by (simp add: np_array_def to_floats_floats)

lemma np_stack_same:
  assumes "fl \<noteq> []" and "\<forall>v\<in>set fl. length v = d"
  shows "np_stack fl = Inr fl"
  using assms by (cases fl) (simp_all add: np_stack_def list_all_iff)

lemma np_mean_axis0_sequential:
  assumes "fl \<noteq> []" and "\<forall>v\<in>set fl. length v = d" and "2 \<le> d"
  shows "np_mean_axis0 np fl = map (sequential_mean np fl) [0..<d]"
proof (cases fl)
  case Nil
  with assms show ?thesis by simp
next
  case (Cons a rest)
  with assms have "length a = d" by simp
  with assms(3) have "length a \<noteq> 1" by simp
  with Cons \<open>length a = d\<close> show ?thesis
    by (simp add: np_mean_axis0_def sequential_mean_def)
qed

lemma load_voiceprints_floats:
  "voiceprints_json st u = Some (JList (map JFloat ds)) \<Longrightarrow> load_voiceprints np st u = Some ds"
  by (simp add: load_voiceprints_def np_array_floats)

lemma load_voiceprints_None:
  "voiceprints_json st u = None \<Longrightarrow> load_voiceprints np st u = None"
  by (simp add: load_voiceprints_def)

lemma feature_loop_floats:
  "map features samples = map (\<lambda>v. Some (JList (map JFloat v))) vs
     \<Longrightarrow> feature_loop np samples = vs"
proof (induction samples arbitrary: vs)
  case Nil
  then show ?case by simp
next
  case (Cons s samples)
  then obtain v rest where vs: "vs = v # rest" by (cases vs) auto
  with Cons.prems have "features s = Some (JList (map JFloat v))"
    and "map features samples = map (\<lambda>v. Some (JList (map JFloat v))) rest"
    by simp_all
  with Cons.IH [of rest] vs show ?case
    by (simp add: np_array_floats)
qed

lemma recompute_voiceprint_eq:
  "recompute_voiceprint np username st =
     (case users_json st username of
        None \<Rightarrow> Inr st
      | Some entry \<Rightarrow>
          (case audio_samples entry of
             None \<Rightarrow> Inr st
           | Some samples \<Rightarrow>
               if feature_loop np samples = [] then Inr st
               else
                 case np_stack (feature_loop np samples) of
                   Inl e \<Rightarrow> Inl e
                 | Inr stacked \<Rightarrow>
                     Inr (save_voiceprints
                            ((load_voiceprints np st)(username \<mapsto> np_mean_axis0 np stacked))
                            st)))"
proof -
  have "feature_loop np [] = []" by simp
  then show ?thesis
    unfolding recompute_voiceprint_def load_users_def Let_def
    by (auto split: option.split sum.split)
qed

lemma voiceprints_json_save:
  "voiceprints_json (save_voiceprints vps st) u = map_option tolist (vps u)"
  by (simp add: save_voiceprints_def)

lemma users_json_save: "users_json (save_voiceprints vps st) = users_json st"
  by (simp add: save_voiceprints_def)

lemma recompute_voiceprint_sequential:
  assumes "users_json st username = Some entry"
    and "audio_samples entry = Some samples"
    and "map features samples = map (\<lambda>v. Some (JList (map JFloat v))) vs"
    and "vs \<noteq> []" and "\<forall>v\<in>set vs. length v = d" and "2 \<le> d"
  shows "recompute_voiceprint np username st =
           Inr (save_voiceprints
                  ((load_voiceprints np st)(username \<mapsto> map (sequential_mean np vs) [0..<d]))
                  st)"
proof -
  have f: "feature_loop np samples = vs"
    using assms(3) by (rule feature_loop_floats)
  have "np_stack vs = Inr vs"
    using assms(4,5) by (rule np_stack_same)
  moreover have "np_mean_axis0 np vs = map (sequential_mean np vs) [0..<d]"
    using assms(4,5,6) by (rule np_mean_axis0_sequential)
  ultimately show ?thesis
    using assms(1,2,4) by (simp add: recompute_voiceprint_eq f)
qed

lemma recompute_voiceprint_noop:
  assumes "users_json st username = None \<or>
           (\<exists>entry. users_json st username = Some entry \<and>
              (audio_samples entry = None \<or> audio_samples entry = Some []))"
  shows "recompute_voiceprint np username st = Inr st"
  using assms by (auto simp: recompute_voiceprint_eq)

text \<open>
  Claim C6, amended. When each of the user's samples holds a list of floats, of one common
  dimension \<open>d\<close> of at least 2, \<open>recompute_voiceprint\<close> stores for the user the vector whose
  component \<open>j\<close> is the floating-point sum of the samples' components \<open>j\<close>, added in the
  order of the samples, divided by the number of samples. When the user is unknown or has no
  samples, the files are left as they are.
\<close>

theorem recompute_voiceprint_mean:
  "(users_json st username = Some entry \<and> audio_samples entry = Some samples \<and>
    map features samples = map (\<lambda>v. Some (JList (map JFloat v))) vs \<and>
    vs \<noteq> [] \<and> (\<forall>v\<in>set vs. length v = d) \<and> 2 \<le> d \<longrightarrow>
      (\<exists>st'. recompute_voiceprint np username st = Inr st' \<and>
             voiceprints_json st' username
               = Some (JList (map JFloat (map (sequential_mean np vs) [0..<d]))))) \<and>
   (users_json st username = None \<or>
    (\<exists>entry. users_json st username = Some entry \<and>
       (audio_samples entry = None \<or> audio_samples entry = Some [])) \<longrightarrow>
      recompute_voiceprint np username st = Inr st)"
proof (rule conjI; rule impI)
  assume a: "users_json st username = Some entry \<and> audio_samples entry = Some samples \<and>
    map features samples = map (\<lambda>v. Some (JList (map JFloat v))) vs \<and>
    vs \<noteq> [] \<and> (\<forall>v\<in>set vs. length v = d) \<and> 2 \<le> d"
  then have a1: "users_json st username = Some entry"
    and a2: "audio_samples entry = Some samples"
    and a3: "map features samples = map (\<lambda>v. Some (JList (map JFloat v))) vs"
    and a4: "vs \<noteq> []" and a5: "\<forall>v\<in>set vs. length v = d" and a6: "2 \<le> d"
    by simp_all
  have "recompute_voiceprint np username st =
           Inr (save_voiceprints
                  ((load_voiceprints np st)(username \<mapsto> map (sequential_mean np vs) [0..<d]))
                  st)"
    using a1 a2 a3 a4 a5 a6 by (rule recompute_voiceprint_sequential)
  then show "\<exists>st'. recompute_voiceprint np username st = Inr st' \<and>
             voiceprints_json st' username
               = Some (JList (map JFloat (map (sequential_mean np vs) [0..<d])))"
    by (simp add: voiceprints_json_save tolist_def)
next
  assume "users_json st username = None \<or>
    (\<exists>entry. users_json st username = Some entry \<and>
       (audio_samples entry = None \<or> audio_samples entry = Some []))"
  then show "recompute_voiceprint np username st = Inr st"
    by (rule recompute_voiceprint_noop)
qed

lemma recompute_voiceprint_cases:
  assumes "recompute_voiceprint np username st = Inr st'"
  shows "st' = st \<or> (\<exists>c. st' = save_voiceprints ((load_voiceprints np st)(username \<mapsto> c)) st)"
  using assms unfolding recompute_voiceprint_eq
  by (auto split: option.splits if_splits sum.splits)

text \<open>
  Claim C10, amended. When \<open>recompute_voiceprint\<close> returns, the users file is unchanged, every
  other user's voiceprint that is stored as a list of floats is unchanged, and no other user
  gains a voiceprint. (When it raises, nothing has been written.)
\<close>

theorem recompute_voiceprint_frame:
  assumes "recompute_voiceprint np username st = Inr st'"
  shows "users_json st' = users_json st \<and>
         (\<forall>u ds. u \<noteq> username \<and> voiceprints_json st u = Some (JList (map JFloat ds))
            \<longrightarrow> voiceprints_json st' u = Some (JList (map JFloat ds))) \<and>
         (\<forall>u. u \<noteq> username \<and> voiceprints_json st u = None
            \<longrightarrow> voiceprints_json st' u = None)"
  using recompute_voiceprint_cases [OF assms]
  by (auto simp: voiceprints_json_save users_json_save load_voiceprints_floats
        load_voiceprints_None tolist_def)

section \<open>Recomputing a voiceprint in the example arithmetic\<close>

lemma upt_0_2: "[0..<2] = [0, Suc 0]"
  by (simp add: numeral_2_eq_2)

lemma round_two_thirds: "round_double (2 / 3) = Fin (6004799503160661 / 2 ^ 53)"
proof -
  have "pow2 (- 1) \<le> \<bar>2 / 3 :: real\<bar>" and "\<bar>2 / 3 :: real\<bar> < pow2 (- 1 + 1)"
    by (simp_all add: pow2_def)
  from round_double_eval [OF this] show ?thesis
    by (simp add: pow2_def round_half_even_def Let_def)
qed

lemma round_one_plus_half_ulp: "round_double (1 + 1 / 2 ^ 53) = Fin 1"
proof -
  have "pow2 0 \<le> \<bar>1 + 1 / 2 ^ 53 :: real\<bar>" and "\<bar>1 + 1 / 2 ^ 53 :: real\<bar> < pow2 (0 + 1)"
    by (simp_all add: pow2_def)
  from round_double_eval [OF this] show ?thesis
    by (simp add: pow2_def round_half_even_def Let_def)
qed

lemma round_third_of_half_ulp:
  "round_double (1 / 2 ^ 53 / 3) = Fin (6004799503160661 / 2 ^ 107)"
proof -
  have "pow2 (- 55) \<le> \<bar>1 / 2 ^ 53 / 3 :: real\<bar>"
    and "\<bar>1 / 2 ^ 53 / 3 :: real\<bar> < pow2 (- 55 + 1)"
    by (simp_all add: pow2_def)
  from round_double_eval [OF this] show ?thesis
    by (simp add: pow2_def round_half_even_def Let_def)
qed

lemma round_2_53_plus_1: "round_double 9007199254740993 = Fin 9007199254740992"
proof -
  have "pow2 53 \<le> \<bar>9007199254740993 :: real\<bar>" and "\<bar>9007199254740993 :: real\<bar> < pow2 (53 + 1)"
    by (simp_all add: pow2_def)
  from round_double_eval [OF this] show ?thesis
    by (simp add: pow2_def round_half_even_def Let_def)
qed

lemma recompute_voiceprint_example:
  assumes "samples = map (\<lambda>(p, v). example_sample p v) pvs"
    and "pvs \<noteq> []" and "\<forall>pv\<in>set pvs. length (snd pv) = 2"
  shows "recompute_voiceprint np ''alice'' (example_files samples vps) =
     Inr (save_voiceprints
            ((load_voiceprints np (example_files samples vps))
               (''alice'' \<mapsto> map (sequential_mean np (map (\<lambda>(p, v). map Fin v) pvs)) [0..<2]))
            (example_files samples vps))"
proof -
  have "map features samples
          = map (\<lambda>v. Some (JList (map JFloat v))) (map (\<lambda>(p, v). map Fin v) pvs)"
    unfolding assms(1) by (simp add: example_sample_def case_prod_unfold comp_def)
  moreover have "map (\<lambda>(p, v). map Fin v) pvs \<noteq> []"
    using assms(2) by simp
  moreover have "\<forall>v\<in>set (map (\<lambda>(p, v). map Fin v) pvs). length v = 2"
    using assms(3) by (auto simp: case_prod_unfold)
  ultimately show ?thesis
    by (intro recompute_voiceprint_sequential
          [where entry = "\<lparr>audio_samples = Some samples\<rparr>" and samples = samples])
       (simp_all add: example_files_def)
qed

lemma mean_thirds:
  "map (sequential_mean ieee_arith [[Fin 1, Fin 0], [Fin 0, Fin 1], [Fin 1, Fin 1]]) [0..<2]
     = [Fin (6004799503160661 / 2 ^ 53), Fin (6004799503160661 / 2 ^ 53)]"
  by (simp add: upt_0_2 sequential_mean_def ieee_arith_def round_two_thirds)

text \<open>
  Claim C6, amended, on the samples \<open>[1,0]\<close>, \<open>[0,1]\<close>, \<open>[1,1]\<close>: both components are the
  double nearest to \<open>2/3\<close>, \<open>0.6666666666666666\<close>; and on a user without samples.
\<close>

theorem recompute_voiceprint_mean_witness:
  "(\<exists>st'. recompute_voiceprint ieee_arith ''alice''
            (example_files [example_sample ''a1.wav'' [1, 0], example_sample ''a2.wav'' [0, 1],
                            example_sample ''a3.wav'' [1, 1]] Map.empty) = Inr st' \<and>
          voiceprints_json st' ''alice''
            = Some (JList [JFloat (Fin (6004799503160661 / 2 ^ 53)),
                           JFloat (Fin (6004799503160661 / 2 ^ 53))])) \<and>
   recompute_voiceprint ieee_arith ''alice'' (example_files [] Map.empty)
     = Inr (example_files [] Map.empty)"
proof -
  let ?s = "[example_sample ''a1.wav'' [1, 0], example_sample ''a2.wav'' [0, 1],
             example_sample ''a3.wav'' [1, 1]]"
  let ?vs = "[[Fin 1, Fin 0], [Fin 0, Fin 1], [Fin 1, Fin 1]]"
  have "\<exists>st'. recompute_voiceprint ieee_arith ''alice'' (example_files ?s Map.empty) = Inr st' \<and>
          voiceprints_json st' ''alice''
            = Some (JList [JFloat (Fin (6004799503160661 / 2 ^ 53)),
                           JFloat (Fin (6004799503160661 / 2 ^ 53))])"
    using recompute_voiceprint_mean
            [where st = "example_files ?s Map.empty" and username = "''alice''"
               and entry = "\<lparr>audio_samples = Some ?s\<rparr>" and samples = ?s and vs = ?vs
               and d = 2 and np = ieee_arith]
    unfolding mean_thirds by (simp add: example_files_def example_sample_def)
  moreover
  have "recompute_voiceprint ieee_arith ''alice'' (example_files [] Map.empty)
          = Inr (example_files [] Map.empty)"
    using recompute_voiceprint_mean
            [where st = "example_files [] Map.empty" and username = "''alice''"
               and np = ieee_arith]
    by (simp add: example_files_def)
  ultimately show ?thesis by blast
qed

text \<open>
  Claim C6 as stated fails: the result depends on the order of the samples. With the first
  components \<open>1\<close>, \<open>2 ^ -53\<close>, \<open>-1\<close> the sum \<open>1 + 2 ^ -53\<close> rounds to \<open>1\<close> and the mean is
  \<open>0\<close>; with \<open>1\<close>, \<open>-1\<close>, \<open>2 ^ -53\<close> nothing is lost and the mean is the double nearest to
  \<open>2 ^ -53 / 3\<close>, about \<open>3.7e-17\<close>.
\<close>

theorem recompute_voiceprint_order_counterexample:
  "\<not> isl (recompute_voiceprint ieee_arith ''alice''
            (example_files [example_sample ''a1.wav'' [1, 0],
                            example_sample ''a2.wav'' [1 / 2 ^ 53, 0],
                            example_sample ''a3.wav'' [- 1, 0]] Map.empty)) \<and>
   voiceprints_json
     (projr (recompute_voiceprint ieee_arith ''alice''
               (example_files [example_sample ''a1.wav'' [1, 0],
                               example_sample ''a2.wav'' [1 / 2 ^ 53, 0],
                               example_sample ''a3.wav'' [- 1, 0]] Map.empty))) ''alice''
     = Some (JList [JFloat (Fin 0), JFloat (Fin 0)]) \<and>
   \<not> isl (recompute_voiceprint ieee_arith ''alice''
            (example_files [example_sample ''a1.wav'' [1, 0],
                            example_sample ''a3.wav'' [- 1, 0],
                            example_sample ''a2.wav'' [1 / 2 ^ 53, 0]] Map.empty)) \<and>
   voiceprints_json
     (projr (recompute_voiceprint ieee_arith ''alice''
               (example_files [example_sample ''a1.wav'' [1, 0],
                               example_sample ''a3.wav'' [- 1, 0],
                               example_sample ''a2.wav'' [1 / 2 ^ 53, 0]] Map.empty))) ''alice''
     = Some (JList [JFloat (Fin (6004799503160661 / 2 ^ 107)), JFloat (Fin 0)])"
proof -
  have h: "round_double (1 / 2 ^ 53) = Fin (1 / 2 ^ 53)"
    by (rule round_double_inverse_pow2) simp
  have u: "round_double (9007199254740993 / 9007199254740992) = Fin 1"
    using round_one_plus_half_ulp by simp
  have a: "map (sequential_mean ieee_arith [[Fin 1, Fin 0], [Fin (1 / 2 ^ 53), Fin 0], [Fin (- 1), Fin 0]])
             [0..<2] = [Fin 0, Fin 0]"
    by (simp add: upt_0_2 sequential_mean_def ieee_arith_def u)
  have b: "map (sequential_mean ieee_arith [[Fin 1, Fin 0], [Fin (- 1), Fin 0], [Fin (1 / 2 ^ 53), Fin 0]])
             [0..<2] = [Fin (6004799503160661 / 2 ^ 107), Fin 0]"
    using round_third_of_half_ulp h
    by (simp add: upt_0_2 sequential_mean_def ieee_arith_def)
  have ra: "recompute_voiceprint ieee_arith ''alice''
            (example_files [example_sample ''a1.wav'' [1, 0],
                            example_sample ''a2.wav'' [1 / 2 ^ 53, 0],
                            example_sample ''a3.wav'' [- 1, 0]] vps) = Inr
         (save_voiceprints
            ((load_voiceprints ieee_arith (example_files [example_sample ''a1.wav'' [1, 0],
                            example_sample ''a2.wav'' [1 / 2 ^ 53, 0],
                            example_sample ''a3.wav'' [- 1, 0]] vps))
               (''alice'' \<mapsto> [Fin 0, Fin 0]))
            (example_files [example_sample ''a1.wav'' [1, 0],
                            example_sample ''a2.wav'' [1 / 2 ^ 53, 0],
                            example_sample ''a3.wav'' [- 1, 0]] vps))" for vps
    using recompute_voiceprint_example
      [where pvs = "[(''a1.wav'', [1, 0]), (''a2.wav'', [1 / 2 ^ 53, 0]), (''a3.wav'', [- 1, 0])]"
         and np = ieee_arith and vps = vps, OF refl] a
    by simp
  have rb: "recompute_voiceprint ieee_arith ''alice''
            (example_files [example_sample ''a1.wav'' [1, 0],
                            example_sample ''a3.wav'' [- 1, 0],
                            example_sample ''a2.wav'' [1 / 2 ^ 53, 0]] vps) = Inr
         (save_voiceprints
            ((load_voiceprints ieee_arith (example_files [example_sample ''a1.wav'' [1, 0],
                            example_sample ''a3.wav'' [- 1, 0],
                            example_sample ''a2.wav'' [1 / 2 ^ 53, 0]] vps))
               (''alice'' \<mapsto> [Fin (6004799503160661 / 2 ^ 107), Fin 0]))
            (example_files [example_sample ''a1.wav'' [1, 0],
                            example_sample ''a3.wav'' [- 1, 0],
                            example_sample ''a2.wav'' [1 / 2 ^ 53, 0]] vps))" for vps
    using recompute_voiceprint_example
      [where pvs = "[(''a1.wav'', [1, 0]), (''a3.wav'', [- 1, 0]), (''a2.wav'', [1 / 2 ^ 53, 0])]"
         and np = ieee_arith and vps = vps, OF refl] b
    by simp
  show ?thesis
    unfolding ra rb by (simp add: voiceprints_json_save tolist_def)
qed

lemma recompute_voiceprint_one_sample:
  "recompute_voiceprint ieee_arith ''alice'' (example_files [example_sample ''a1.wav'' [1, 0]] vps) =
     Inr (save_voiceprints
            ((load_voiceprints ieee_arith (example_files [example_sample ''a1.wav'' [1, 0]] vps))
               (''alice'' \<mapsto> [Fin 1, Fin 0]))
            (example_files [example_sample ''a1.wav'' [1, 0]] vps))"
proof -
  have "map (sequential_mean ieee_arith [[Fin 1, Fin 0]]) [0..<2] = [Fin 1, Fin 0]"
    by (simp add: upt_0_2 sequential_mean_def ieee_arith_def)
  then show ?thesis
    using recompute_voiceprint_example
      [where pvs = "[(''a1.wav'', [1, 0])]" and np = ieee_arith and vps = vps, OF refl]
    by simp
qed

text \<open>Claim C10, amended, with bob's voiceprint stored beside alice's new one.\<close>

theorem recompute_voiceprint_frame_witness:
  "\<exists>st'. recompute_voiceprint ieee_arith ''alice''
           (example_files [example_sample ''a1.wav'' [1, 0]]
              [''bob'' \<mapsto> JList [JFloat (Fin 0), JFloat (Fin 1)]])
           = Inr st' \<and>
         users_json st'
           = users_json (example_files [example_sample ''a1.wav'' [1, 0]]
                           [''bob'' \<mapsto> JList [JFloat (Fin 0), JFloat (Fin 1)]]) \<and>
         voiceprints_json st' ''bob'' = Some (JList [JFloat (Fin 0), JFloat (Fin 1)]) \<and>
         voiceprints_json st' ''carol'' = None \<and>
         voiceprints_json st' ''alice'' = Some (JList [JFloat (Fin 1), JFloat (Fin 0)])"
proof -
  let ?st = "example_files [example_sample ''a1.wav'' [1, 0]]
               [''bob'' \<mapsto> JList [JFloat (Fin 0), JFloat (Fin 1)]]"
  let ?st' = "save_voiceprints ((load_voiceprints ieee_arith ?st)(''alice'' \<mapsto> [Fin 1, Fin 0])) ?st"
  have r: "recompute_voiceprint ieee_arith ''alice'' ?st = Inr ?st'"
    by (rule recompute_voiceprint_one_sample)
  have b: "voiceprints_json ?st ''bob'' = Some (JList (map JFloat [Fin 0, Fin 1]))"
    and c: "voiceprints_json ?st ''carol'' = None"
    by (simp_all add: example_files_def)
  note fr = recompute_voiceprint_frame [OF r]
  from fr have "users_json ?st' = users_json ?st"
    by (rule conjunct1)
  moreover from fr [THEN conjunct2, THEN conjunct1, rule_format, of "''bob''" "[Fin 0, Fin 1]"] b
  have "voiceprints_json ?st' ''bob'' = Some (JList [JFloat (Fin 0), JFloat (Fin 1)])"
    by simp
  moreover from fr [THEN conjunct2, THEN conjunct2, rule_format, of "''carol''"] c
  have "voiceprints_json ?st' ''carol'' = None"
    by simp
  moreover have "voiceprints_json ?st' ''alice'' = Some (JList [JFloat (Fin 1), JFloat (Fin 0)])"
    by (simp add: voiceprints_json_save tolist_def)
  ultimately show ?thesis
    using r by (intro exI [of _ ?st']) simp
qed

text \<open>
  Claim C10 as stated fails: \<open>load_voiceprints\<close> skips an entry that it cannot convert to
  an array of floats, and \<open>save_voiceprints\<close> then rewrites the file from what was loaded.
  Here bob's entry is the JSON string \<^verbatim>\<open>abc\<close>, and recomputing alice's voiceprint removes
  it; carol's entry is the integer \<open>2 ^ 53 + 1\<close>, which comes back as the float \<open>2 ^ 53\<close>.
\<close>

theorem recompute_voiceprint_drops_entry_counterexample:
  "voiceprints_json
     (example_files [example_sample ''a1.wav'' [1, 0]]
        [''bob'' \<mapsto> JOther ''abc'', ''carol'' \<mapsto> JList [JInt 9007199254740993]])
     ''bob'' = Some (JOther ''abc'') \<and>
   \<not> isl (recompute_voiceprint ieee_arith ''alice''
            (example_files [example_sample ''a1.wav'' [1, 0]]
               [''bob'' \<mapsto> JOther ''abc'', ''carol'' \<mapsto> JList [JInt 9007199254740993]])) \<and>
   voiceprints_json
     (projr (recompute_voiceprint ieee_arith ''alice''
               (example_files [example_sample ''a1.wav'' [1, 0]]
                  [''bob'' \<mapsto> JOther ''abc'', ''carol'' \<mapsto> JList [JInt 9007199254740993]])))
     ''bob'' = None \<and>
   voiceprints_json
     (projr (recompute_voiceprint ieee_arith ''alice''
               (example_files [example_sample ''a1.wav'' [1, 0]]
                  [''bob'' \<mapsto> JOther ''abc'', ''carol'' \<mapsto> JList [JInt 9007199254740993]])))
     ''carol'' = Some (JList [JFloat (Fin 9007199254740992)])"
  unfolding recompute_voiceprint_one_sample
  by (simp add: voiceprints_json_save load_voiceprints_def np_array_def example_files_def
        tolist_def ieee_arith_def round_2_53_plus_1)

section \<open>The range of the cosine distance\<close>




lemma exact_finite [simp]: "list_all is_finite (map Fin v)"
  by (induction v) (simp_all add: is_finite_def)



















end
